theory Spec2Isabelle
  imports Complex_Main "HOL-Library.Sublist" "HOL-Library.AList"
begin

unbundle bit_operations_syntax

section \<open>Python values and exceptions\<close>

text \<open>
  Exceptions of the Python source that the modelled functions raise or let through.
  A function that can raise returns \<open>exn + 'a\<close>, \<open>Inl\<close> carrying the exception.
\<close>

datatype exn = ValueError | TypeError | KeyError string | IndexError

text \<open>
  A value read from a database column, as the connector hands it to Python:
  NULL, an integer, a finite non-integer number (a float or decimal, by its exact value),
  text, or any other object that has no integer conversion. Text is represented by what
  the built-in \<open>int()\<close> makes of it: \<open>PyIntText n\<close> is a text that \<open>int()\<close> converts
  to \<open>n\<close>, \<open>PyNonIntText\<close> a text that \<open>int()\<close> rejects with ValueError.
\<close>

datatype pyval = PyNone | PyInt int | PyNum rat | PyIntText int | PyNonIntText | PyObj

text \<open>\<open>status_value == 0\<close>: numbers compare by value, text and other objects never equal 0.\<close>

fun py_eq0 :: "pyval \<Rightarrow> bool" where
  "py_eq0 (PyInt n) = (n = 0)"
| "py_eq0 (PyNum r) = (r = 0)"
| "py_eq0 _ = False"

text \<open>\<open>int(status_value)\<close>: truncation toward zero on numbers, parsing on text.\<close>

fun py_int :: "pyval \<Rightarrow> exn + int" where
  "py_int PyNone = Inl TypeError"
| "py_int (PyInt n) = Inr n"
| "py_int (PyNum r) = Inr (if 0 \<le> r then \<lfloor>r\<rfloor> else \<lceil>r\<rceil>)"
| "py_int (PyIntText n) = Inr n"
| "py_int PyNonIntText = Inl ValueError"
| "py_int PyObj = Inl TypeError"

section \<open>Status decoder (processing/process\_decoder.py)\<close>

definition STATUS_BITS :: "(nat \<times> string) list" where
  "STATUS_BITS =
     [(1, ''start_phase_1''), (2, ''start_phase_2''), (3, ''start_phase_3''),
      (4, ''start_phase_4''), (5, ''start_phase_5''), (6, ''start_phase_6'')]"

fun str_nat :: "nat \<Rightarrow> string" where
  "str_nat n =
     (if n < 10 then [''0123456789'' ! n]
      else str_nat (n div 10) @ [''0123456789'' ! (n mod 10)])"

declare str_nat.simps [simp del]

text \<open>\<open>STATUS_BITS.get(bit_position, f'unknown_status_bit_{bit_position}')\<close>\<close>

definition STATUS_BITS_get :: "nat \<Rightarrow> string" where
  "STATUS_BITS_get bit_position =
     (case map_of STATUS_BITS bit_position of
        Some s \<Rightarrow> s
      | None \<Rightarrow> ''unknown_status_bit_'' @ str_nat bit_position)"

text \<open>
  The loop of \<open>decode_status_current\<close> over \<open>range(6, 0, -1)\<close>: it returns at the first
  position whose bit \<open>status_int & (1 << (bit_position - 1))\<close> is set.
\<close>

fun current_loop :: "int \<Rightarrow> nat list \<Rightarrow> string option" where
  "current_loop status_int [] = None"
| "current_loop status_int (bit_position # rest) =
     (if status_int AND push_bit (bit_position - 1) 1 \<noteq> 0
      then Some (STATUS_BITS_get bit_position)
      else current_loop status_int rest)"

definition decode_status_current :: "pyval \<Rightarrow> exn + string" where
  "decode_status_current status_value =
     (if status_value = PyNone \<or> py_eq0 status_value then Inr ''no_status''
      else case py_int status_value of
             Inl ValueError \<Rightarrow> Inr ''invalid_value''
           | Inl TypeError \<Rightarrow> Inr ''invalid_value''
           | Inl e \<Rightarrow> Inl e
           | Inr status_int \<Rightarrow>
               (case current_loop status_int [6, 5, 4, 3, 2, 1] of
                  Some s \<Rightarrow> Inr s
                | None \<Rightarrow> Inr ''no_status''))"

text \<open>
  The loop of \<open>decode_status_complete\<close> over \<open>range(1, 7)\<close>, appending to
  \<open>active_states\<close>.
\<close>

fun complete_loop :: "int \<Rightarrow> nat list \<Rightarrow> string list \<Rightarrow> string list" where
  "complete_loop status_int [] active_states = active_states"
| "complete_loop status_int (bit_position # rest) active_states =
     (if status_int AND push_bit (bit_position - 1) 1 \<noteq> 0
      then complete_loop status_int rest (active_states @ [STATUS_BITS_get bit_position])
      else complete_loop status_int rest active_states)"

text \<open>\<open>sep.join(xs)\<close>\<close>

fun join :: "string \<Rightarrow> string list \<Rightarrow> string" where
  "join sep [] = []"
| "join sep [x] = x"
| "join sep (x # y # ys) = x @ sep @ join sep (y # ys)"

definition decode_status_complete :: "pyval \<Rightarrow> exn + string" where
  "decode_status_complete status_value =
     (if status_value = PyNone \<or> py_eq0 status_value then Inr ''no_states''
      else case py_int status_value of
             Inl ValueError \<Rightarrow> Inr ''invalid_value''
           | Inl TypeError \<Rightarrow> Inr ''invalid_value''
           | Inl e \<Rightarrow> Inl e
           | Inr status_int \<Rightarrow>
               (let active_states = complete_loop status_int [1, 2, 3, 4, 5, 6] []
                in if active_states = [] then Inr ''no_states''
                   else Inr (join '' '' active_states)))"

subsection \<open>The decoder as the specification words it\<close>

text \<open>
  The positions among 1..6 whose bit is set in \<open>n\<close> (position \<open>p\<close> is bit \<open>p - 1\<close>, in
  two's complement for a negative \<open>n\<close>), and the name of the phase of a position.
\<close>

definition set_positions :: "int \<Rightarrow> nat set" where
  "set_positions n = Set.filter (\<lambda>p. bit n (p - 1)) {1..6}"

definition phase_name :: "nat \<Rightarrow> string" where
  "phase_name p = ''start_phase_'' @ str_nat p"

text \<open>
  \<open>decode_current\<close> in the specification's words: \<open>no_status\<close> for null, zero or no bit
  among 1..6, \<open>invalid_value\<close> for an input with no integer reading, and otherwise the
  phase of the highest set position.
\<close>

definition spec_decode_current :: "pyval \<Rightarrow> string" where
  "spec_decode_current v =
     (if v = PyNone \<or> py_eq0 v then ''no_status''
      else case py_int v of
             Inl e \<Rightarrow> ''invalid_value''
           | Inr n \<Rightarrow> if set_positions n = {} then ''no_status''
                     else phase_name (Max (set_positions n)))"

text \<open>
  \<open>decode_history\<close> in the specification's words: the phases of all set positions in
  ascending order, separated by blanks.
\<close>

definition spec_decode_history :: "pyval \<Rightarrow> string" where
  "spec_decode_history v =
     (if v = PyNone \<or> py_eq0 v then ''no_states''
      else case py_int v of
             Inl e \<Rightarrow> ''invalid_value''
           | Inr n \<Rightarrow> if set_positions n = {} then ''no_states''
                     else join '' '' (map phase_name (sorted_list_of_set (set_positions n))))"


section \<open>Time stamps and their text\<close>

text \<open>
  A \<open>datetime\<close> is a point of the time line, counted in microseconds (the resolution of
  Python's \<open>datetime\<close>); comparison is that of the counts, and \<open>timedelta(minutes=n)\<close>
  is \<open>n\<close> times sixty million. The range limit of Python's type (year 9999) is not
  modelled.

  The code uses two formats: \<open>'%Y-%m-%d %H:%M:%S'\<close> (whole seconds, \<open>FmtSec\<close>) and
  \<open>'%Y-%m-%d %H:%M:%S.%f'\<close> (with a fraction, \<open>FmtFrac\<close>). A text is represented by
  what these formats make of it: \<open>SecText s\<close> is the whole-second text of second \<open>s\<close>
  (only \<open>FmtSec\<close> parses it), \<open>FracText u\<close> a text with a fraction denoting the
  microsecond \<open>u\<close> (only \<open>FmtFrac\<close> parses it), \<open>OtherText x\<close> any other string
  (neither parses it; \<open>x\<close> may be empty).
\<close>

type_synonym datetime = int

datatype timetext = SecText int | FracText int | OtherText string

datatype fmt = FmtSec | FmtFrac

text \<open>\<open>datetime.strptime(s, fmt)\<close>, which raises ValueError on a mismatch.\<close>

fun strptime :: "timetext \<Rightarrow> fmt \<Rightarrow> exn + datetime" where
  "strptime (SecText s) FmtSec = Inr (s * 1000000)"
| "strptime (FracText u) FmtFrac = Inr u"
| "strptime _ _ = Inl ValueError"

text \<open>\<open>t.strftime('%Y-%m-%d %H:%M:%S')\<close>: the fraction of the second is dropped.\<close>

definition strftime :: "datetime \<Rightarrow> timetext" where
  "strftime t = SecText (t div 1000000)"

definition timedelta_minutes :: "int \<Rightarrow> int" where
  "timedelta_minutes n = n * 60000000"

text \<open>
  The pattern the code repeats wherever it meets a text time stamp:
  \<^verbatim>\<open>try: strptime(s, '%Y-%m-%d %H:%M:%S')  except ValueError: strptime(s, '%Y-%m-%d %H:%M:%S.%f')\<close>
\<close>

definition strptime_either :: "timetext \<Rightarrow> exn + datetime" where
  "strptime_either s =
     (case strptime s FmtSec of
        Inr d \<Rightarrow> Inr d
      | Inl ValueError \<Rightarrow> strptime s FmtFrac
      | Inl e \<Rightarrow> Inl e)"

text \<open>
  A time-stamp value as Python holds it: \<open>None\<close>, a \<open>datetime\<close> object or a \<open>str\<close>.
  \<open>truthy\<close> is Python's truth value of it.
\<close>

datatype timeval = TNone | TTime datetime | TText timetext

fun truthy :: "timeval \<Rightarrow> bool" where
  "truthy TNone = False"
| "truthy (TTime t) = True"
| "truthy (TText (OtherText x)) = (x \<noteq> [])"
| "truthy (TText _) = True"

section \<open>The databases and the state of the process\<close>

text \<open>
  A row of \<open>tb_product_scanner\<close> as the code matcher selects it:
  (scanner\_timestamp, product\_code, operator\_id, work\_order); a row of
  \<open>tb_equipment_records\<close> as the fetcher selects it: (status\_field, equipment time stamp).
\<close>

type_synonym code_data = "datetime \<times> string \<times> string \<times> string"

type_synonym equipment_record = "pyval \<times> datetime"

text \<open>
  A row of \<open>tb_combined_data\<close>, with the columns the writer's INSERT names. The two
  decoded texts are read back by \<open>_verify_complete_cycle\<close>; a text column can hold
  NULL, which Python receives as \<open>None\<close>.
\<close>

record combined_row =
  col_scanner_timestamp :: datetime
  col_equipment_timestamp :: datetime
  col_conveyor_timestamp :: "datetime option"
  col_status_field :: pyval
  col_process_status :: "string option"
  col_process_complete_status :: "string option"
  col_product_code :: string
  col_code_description :: string
  col_operator_id :: string
  col_work_order :: string

text \<open>
  What happens to the next round trip to a database: it completes, the connection cannot
  be opened (\<open>connect\<close> returns \<open>None\<close>), or the statement fails with \<open>mariadb.Error\<close>.
\<close>

datatype db_outcome = Completes | ConnectFails | QueryFails

datatype level = DEBUG | INFO | WARNING | ERROR

datatype logarg = LTime datetime | LCursor "datetime option" | LNat nat | LStr string | LExn exn

type_synonym log_entry = "level \<times> string \<times> logarg list"

text \<open>
  The world: the configured database names (the keys of \<open>DB_CONFIGS\<close> in
  config/credentials.py), the outcomes of the coming database round trips, the database
  clock's current day, the tables, the product catalogue (the dictionary of the module
  \<open>database.descriptions_dict\<close>, whose contents are a parameter), and the attributes
  the objects of the process hold: \<open>StateManager.last_processed_time\<close>,
  \<open>DataProcessor.requests_without_code\<close>, \<open>EquipmentDataHandler.descriptions_cache\<close>,
  \<open>ProcessingSystem.cycle_count\<close> and the log.

  The configured names are a field so that every configuration is covered. The file
  config/credentials.py configures \<open>equipment\<close>, \<open>Code\<close> and \<open>Combined\<close>, while the
  code also connects to \<open>scanner\<close> and \<open>analytics\<close>; with a name that is not
  configured, \<open>connect\<close> raises ValueError.

  \<open>tb_processing_state\<close> is the cell \<open>last_processed_time\<close> of the row with id 1
  (\<open>None\<close>: no such row); it holds what the last upsert sent.
\<close>

record world =
  DB_CONFIGS :: "string list"
  db_outcomes :: "db_outcome list"
  curdate :: datetime
  tb_conveyor_requests :: "datetime list"
  tb_product_scanner :: "code_data list"
  tb_equipment_records :: "equipment_record list"
  tb_combined_data :: "combined_row list"
  tb_processing_state :: "timeval option"
  descriptions :: "(string \<times> string) list"
  last_processed_time :: "datetime option"
  requests_without_code :: "timetext set"
  descriptions_cache :: "(string \<times> string) list"
  cycle_count :: nat
  logged :: "log_entry list"

definition logger :: "level \<Rightarrow> string \<Rightarrow> logarg list \<Rightarrow> world \<Rightarrow> world" where
  "logger lv msg args w = w\<lparr>logged := logged w @ [(lv, msg, args)]\<rparr>"

section \<open>Query executor (database/query\_executor.py, database/connection\_manager.py)\<close>

text \<open>
  Every call of the modelled code leaves \<open>close_after\<close> at its default, so each call
  opens its connection and closes it again: the table of active connections is empty
  between calls and is not modelled. The outcome of the round trip is taken from
  \<open>db_outcomes\<close>; when the list is used up, every round trip completes.
\<close>

definition next_outcome :: "world \<Rightarrow> db_outcome \<times> world" where
  "next_outcome w =
     (case db_outcomes w of
        [] \<Rightarrow> (Completes, w)
      | f # fs \<Rightarrow> (f, w\<lparr>db_outcomes := fs\<rparr>))"

text \<open>
  \<open>DatabaseConnectionManager.connect\<close>: ValueError for a name that is not configured,
  \<open>None\<close> (here \<open>Inr ConnectFails\<close>) when the connection cannot be opened. A
  connection that was opened is returned with the outcome its statement will have, which
  the caller meets when it executes the statement.
\<close>

definition connect :: "string \<Rightarrow> world \<Rightarrow> (exn + db_outcome) \<times> world" where
  "connect db_type w =
     (if db_type \<notin> set (DB_CONFIGS w) then (Inl ValueError, w)
      else case next_outcome w of
             (ConnectFails, w1) \<Rightarrow>
               (Inr ConnectFails, logger ERROR ''Error connecting to {db_type} DB: {e}'' [LStr db_type] w1)
           | (f, w1) \<Rightarrow>
               (Inr f, logger INFO ''Successful connection to {db_type} DB'' [LStr db_type] w1))"

text \<open>
  \<open>execute_query\<close>. The SQL statement with its parameters is given by the function
  \<open>query\<close> that computes its result from the tables. The result \<open>None\<close> is the
  failure sentinel.
\<close>

definition execute_query :: "string \<Rightarrow> (world \<Rightarrow> 'r) \<Rightarrow> world \<Rightarrow> (exn + 'r option) \<times> world" where
  "execute_query db_type query w =
     (case connect db_type w of
        (Inl e, w1) \<Rightarrow> (Inl e, w1)
      | (Inr ConnectFails, w1) \<Rightarrow> (Inr None, w1)
      | (Inr QueryFails, w1) \<Rightarrow> (Inr None, logger ERROR ''Query error ({db_type}): {e}'' [LStr db_type] w1)
      | (Inr Completes, w1) \<Rightarrow> (Inr (Some (query w1)), w1))"

text \<open>\<open>execute_update\<close>: the statement is a change of the tables, committed on success.\<close>

definition execute_update :: "string \<Rightarrow> (world \<Rightarrow> world) \<Rightarrow> world \<Rightarrow> (exn + bool) \<times> world" where
  "execute_update db_type stmt w =
     (case connect db_type w of
        (Inl e, w1) \<Rightarrow> (Inl e, w1)
      | (Inr ConnectFails, w1) \<Rightarrow> (Inr False, w1)
      | (Inr QueryFails, w1) \<Rightarrow> (Inr False, logger ERROR ''Update error ({db_type}): {e}'' [LStr db_type] w1)
      | (Inr Completes, w1) \<Rightarrow> (Inr True, stmt w1))"

text \<open>
  \<open>execute_many\<close>: an empty parameter list returns \<open>True\<close> at once. Otherwise the
  statement runs for each parameter tuple in turn and the batch is committed; a failure
  leaves nothing committed.
\<close>

definition execute_many :: "string \<Rightarrow> ('p \<Rightarrow> world \<Rightarrow> world) \<Rightarrow> 'p list \<Rightarrow> world \<Rightarrow> (exn + bool) \<times> world" where
  "execute_many db_type stmt params_list w =
     (if params_list = [] then (Inr True, w)
      else case connect db_type w of
             (Inl e, w1) \<Rightarrow> (Inl e, w1)
           | (Inr ConnectFails, w1) \<Rightarrow> (Inr False, w1)
           | (Inr QueryFails, w1) \<Rightarrow>
               (Inr False, logger ERROR ''Batch update error ({db_type}): {e}'' [LStr db_type] w1)
           | (Inr Completes, w1) \<Rightarrow> (Inr True, fold stmt params_list w1))"


section \<open>Cursor store (database/state\_manager.py)\<close>

text \<open>
  The body the three getters share: \<open>result\<close> is the row \<open>fetchone()\<close> returned, or
  \<open>None\<close> when no row matched or the round trip failed; a \<open>str\<close> in its first column is
  parsed, anything else that is truthy is returned as it is.
\<close>

definition time_of_result :: "timeval option \<Rightarrow> exn + datetime option" where
  "time_of_result result =
     (case result of
        None \<Rightarrow> Inr None
      | Some c \<Rightarrow>
          (if truthy c then
             (case c of
                TText s \<Rightarrow> (case strptime_either s of Inl e \<Rightarrow> Inl e | Inr d \<Rightarrow> Inr (Some d))
              | TTime d \<Rightarrow> Inr (Some d)
              | TNone \<Rightarrow> Inr None)
           else Inr None))"

definition fetch_time :: "(world \<Rightarrow> timeval option) \<Rightarrow> world \<Rightarrow> (exn + datetime option) \<times> world" where
  "fetch_time query w =
     (case execute_query ''Combined'' query w of
        (Inl e, w1) \<Rightarrow> (Inl e, w1)
      | (Inr None, w1) \<Rightarrow> (Inr None, w1)
      | (Inr (Some result), w1) \<Rightarrow> (time_of_result result, w1))"

text \<open>\<open>SELECT last_processed_time FROM tb_processing_state WHERE id = 1\<close>\<close>

definition get_last_processed_time :: "world \<Rightarrow> (exn + datetime option) \<times> world" where
  "get_last_processed_time w = fetch_time tb_processing_state w"

text \<open>\<open>MAX\<close> of a column: NULL over no rows.\<close>

definition sql_max :: "datetime list \<Rightarrow> timeval" where
  "sql_max ts = (case ts of [] \<Rightarrow> TNone | t # rest \<Rightarrow> TTime (fold max rest t))"

text \<open>
  \<open>SELECT MAX(timestamp_conveyor) FROM tb_combined_data WHERE timestamp_conveyor IS NOT NULL\<close>
  and \<open>SELECT MAX(code_timestamp) FROM tb_combined_data\<close>: the trigger and the code time
  stamps of the combined rows. An aggregate always yields one row.
\<close>

definition max_conveyor_query :: "world \<Rightarrow> timeval option" where
  "max_conveyor_query w = Some (sql_max (List.map_filter col_conveyor_timestamp (tb_combined_data w)))"

definition max_code_query :: "world \<Rightarrow> timeval option" where
  "max_code_query w = Some (sql_max (map col_scanner_timestamp (tb_combined_data w)))"

definition get_last_processed_time_from_conveyor_data :: "world \<Rightarrow> (exn + datetime option) \<times> world" where
  "get_last_processed_time_from_conveyor_data w = fetch_time max_conveyor_query w"

definition get_last_processed_time_from_code_data :: "world \<Rightarrow> (exn + datetime option) \<times> world" where
  "get_last_processed_time_from_code_data w = fetch_time max_code_query w"

text \<open>
  \<open>persist_last_processed_time\<close>: the upsert of the row with id 1. A \<open>datetime\<close> is sent
  as its whole-second text, a \<open>str\<close> as it is.
\<close>

definition persist_last_processed_time :: "timeval \<Rightarrow> world \<Rightarrow> (exn + bool) \<times> world" where
  "persist_last_processed_time last_time w =
     (if \<not> truthy last_time then (Inr False, w)
      else
        (let param = (case last_time of TTime t \<Rightarrow> TText (strftime t) | other \<Rightarrow> other)
         in execute_update ''Combined'' (\<lambda>db. db\<lparr>tb_processing_state := Some param\<rparr>) w))"

definition update_last_processed_time :: "timeval \<Rightarrow> world \<Rightarrow> (exn + bool) \<times> world" where
  "update_last_processed_time new_time w =
     (case persist_last_processed_time new_time w of
        (Inl e, w1) \<Rightarrow> (Inl e, w1)
      | (Inr False, w1) \<Rightarrow> (Inr False, w1)
      | (Inr True, w1) \<Rightarrow>
          (case (case new_time of
                   TText s \<Rightarrow> (case strptime_either s of Inl e \<Rightarrow> Inl e | Inr d \<Rightarrow> Inr (Some d))
                 | TTime d \<Rightarrow> Inr (Some d)
                 | TNone \<Rightarrow> Inr None) of
             Inl e \<Rightarrow> (Inl e, w1)
           | Inr t \<Rightarrow>
               (Inr True, logger INFO ''Time updated: {new_time}'' [LCursor t] (w1\<lparr>last_processed_time := t\<rparr>))))"

text \<open>
  The test \<open>current_state and last_conveyor_time and current_state > last_conveyor_time\<close>
  of \<open>initialize_from_existing_data\<close>, and a cursor value (\<open>None\<close> or a \<open>datetime\<close>)
  as an argument.
\<close>

fun cursor_ahead :: "datetime option \<Rightarrow> datetime option \<Rightarrow> bool" where
  "cursor_ahead (Some current_state) (Some last_conveyor_time) = (current_state > last_conveyor_time)"
| "cursor_ahead _ _ = False"

fun timeval_of :: "datetime option \<Rightarrow> timeval" where
  "timeval_of None = TNone"
| "timeval_of (Some t) = TTime t"

text \<open>
  \<open>initialize_from_existing_data\<close>. The results of \<open>persist_last_processed_time\<close> are
  not looked at.
\<close>

definition initialize_from_existing_data :: "world \<Rightarrow> (exn + datetime option) \<times> world" where
  "initialize_from_existing_data w =
     (case get_last_processed_time_from_conveyor_data w of
        (Inl e, w1) \<Rightarrow> (Inl e, w1)
      | (Inr last_conveyor_time, w1) \<Rightarrow>
          (let current_state = last_processed_time w1 in
           if cursor_ahead current_state last_conveyor_time
           then
             (case persist_last_processed_time (timeval_of last_conveyor_time)
                     (logger WARNING ''Inconsistent state! Resetting to last conveyor data: {last_conveyor_time}''
                        [LCursor last_conveyor_time] w1) of
                (Inl e, w2) \<Rightarrow> (Inl e, w2)
              | (Inr _, w2) \<Rightarrow> (Inr last_conveyor_time, w2\<lparr>last_processed_time := last_conveyor_time\<rparr>))
           else
             (case get_last_processed_time_from_conveyor_data w1 of
                (Inl e, w2) \<Rightarrow> (Inl e, w2)
              | (Inr (Some last_conveyor_time2), w2) \<Rightarrow>
                  (case persist_last_processed_time (TTime last_conveyor_time2)
                          (logger INFO ''Initializing from last conveyor record: {last_conveyor_time}''
                             [LTime last_conveyor_time2] w2) of
                     (Inl e, w3) \<Rightarrow> (Inl e, w3)
                   | (Inr _, w3) \<Rightarrow>
                       (Inr (Some last_conveyor_time2), w3\<lparr>last_processed_time := Some last_conveyor_time2\<rparr>))
              | (Inr None, w2) \<Rightarrow>
                  (case get_last_processed_time_from_code_data w2 of
                     (Inl e, w3) \<Rightarrow> (Inl e, w3)
                   | (Inr (Some last_code_time), w3) \<Rightarrow>
                       (case persist_last_processed_time (TTime last_code_time)
                               (logger INFO ''Initializing from last code record: {last_code_time}''
                                  [LTime last_code_time] w3) of
                          (Inl e, w4) \<Rightarrow> (Inl e, w4)
                        | (Inr _, w4) \<Rightarrow>
                            (Inr (Some last_code_time), w4\<lparr>last_processed_time := Some last_code_time\<rparr>))
                   | (Inr None, w3) \<Rightarrow>
                       (Inr None, logger INFO ''No existing data found for initialization'' [] w3)))))"

text \<open>
  \<open>StateManager.__init__\<close>: the cursor is read once, and an exception of the read leaves
  the constructor.
\<close>

definition StateManager_init :: "world \<Rightarrow> (exn + unit) \<times> world" where
  "StateManager_init w =
     (case get_last_processed_time w of
        (Inl e, w1) \<Rightarrow> (Inl e, w1)
      | (Inr t, w1) \<Rightarrow>
          (Inr (), logger INFO ''Last processed time: {self.last_processed_time}'' [LCursor t]
                     (w1\<lparr>last_processed_time := t\<rparr>)))"

text \<open>
  \<open>get_processing_statistics\<close>: two read-only aggregate queries on the combined database,
  whose results are only logged.
\<close>

definition get_processing_statistics :: "world \<Rightarrow> (exn + unit) \<times> world" where
  "get_processing_statistics w =
     (case execute_query ''Combined'' (\<lambda>db. length (tb_combined_data db)) w of
        (Inl e, w1) \<Rightarrow> (Inl e, w1)
      | (Inr _, w1) \<Rightarrow>
          (case execute_query ''Combined'' (\<lambda>db. length (tb_combined_data db)) w1 of
             (Inl e, w2) \<Rightarrow> (Inl e, w2)
           | (Inr _, w2) \<Rightarrow> (Inr (), w2)))"


section \<open>Equipment data handler (processing/equipment\_data\_handler.py)\<close>

text \<open>A Python \<open>dict\<close> with string keys; \<open>d[k]\<close> raises KeyError for a missing key.\<close>

type_synonym 'v dict = "(string \<times> 'v) list"

definition dict_get :: "'v dict \<Rightarrow> string \<Rightarrow> exn + 'v" where
  "dict_get d k = (case map_of d k of None \<Rightarrow> Inl (KeyError k) | Some v \<Rightarrow> Inr v)"

text \<open>\<open>get_code_description\<close>: \<open>descriptions.get(product_code, "")\<close>, remembered in the cache.\<close>

definition get_code_description :: "string \<Rightarrow> world \<Rightarrow> string \<times> world" where
  "get_code_description product_code w =
     (let description = (case map_of (descriptions w) product_code of Some d \<Rightarrow> d | None \<Rightarrow> [])
      in (description, w\<lparr>descriptions_cache := AList.update product_code description (descriptions_cache w)\<rparr>))"

text \<open>
  The fetcher's query: the equipment records with \<open>start_time < time stamp \<le> end_time\<close>,
  in ascending order of the time stamp.
\<close>

definition equipment_query :: "datetime \<Rightarrow> datetime \<Rightarrow> world \<Rightarrow> equipment_record list" where
  "equipment_query start_time end_time w =
     sort_key snd (filter (\<lambda>r. start_time < snd r \<and> snd r \<le> end_time) (tb_equipment_records w))"

definition get_equipment_data_by_time_range ::
  "datetime \<Rightarrow> datetime \<Rightarrow> world \<Rightarrow> (exn + equipment_record list dict) \<times> world" where
  "get_equipment_data_by_time_range start_time end_time w =
     (case execute_query ''equipment'' (equipment_query start_time end_time) w of
        (Inl e, w1) \<Rightarrow> (Inl e, w1)
      | (Inr result, w1) \<Rightarrow>
          (let status_records = (case result of None \<Rightarrow> [] | Some rows \<Rightarrow> rows)
           in (Inr [(''status_records'', status_records)], w1)))"

text \<open>
  \<open>INSERT IGNORE INTO tb_combined_data\<close> of one row: the table has a unique key over the
  three time stamps, and a row whose key is already there is skipped. A NULL in a key
  column never collides.
\<close>

definition same_key :: "combined_row \<Rightarrow> combined_row \<Rightarrow> bool" where
  "same_key a b =
     (col_scanner_timestamp a = col_scanner_timestamp b
      \<and> col_equipment_timestamp a = col_equipment_timestamp b
      \<and> col_conveyor_timestamp a \<noteq> None \<and> col_conveyor_timestamp a = col_conveyor_timestamp b)"

definition insert_ignore :: "combined_row \<Rightarrow> world \<Rightarrow> world" where
  "insert_ignore r w =
     (if list_ex (\<lambda>r'. same_key r' r) (tb_combined_data w) then w
      else w\<lparr>tb_combined_data := tb_combined_data w @ [r]\<rparr>)"

text \<open>The argument of the writer: the \<open>dict\<close> that \<open>_save_combined_data\<close> builds.\<close>

record combined_data =
  key_conveyor_time :: datetime
  key_code_data :: code_data
  key_equipment_data :: "equipment_record list dict"

text \<open>The loop of the writer that decodes each record and appends its parameter tuple.\<close>

fun build_params ::
  "datetime \<Rightarrow> code_data \<Rightarrow> string \<Rightarrow> equipment_record list \<Rightarrow> combined_row list
   \<Rightarrow> exn + combined_row list" where
  "build_params conveyor_time code_data code_description [] params = Inr params"
| "build_params conveyor_time code_data code_description (equipment_record # rest) params =
     (let status_value = fst equipment_record;
          equipment_timestamp = snd equipment_record
      in case decode_status_current status_value of
           Inl e \<Rightarrow> Inl e
         | Inr process_status \<Rightarrow>
             (case decode_status_complete status_value of
                Inl e \<Rightarrow> Inl e
              | Inr process_complete_status \<Rightarrow>
                  build_params conveyor_time code_data code_description rest
                    (params @
                     [\<lparr>col_scanner_timestamp = fst code_data,
                       col_equipment_timestamp = equipment_timestamp,
                       col_conveyor_timestamp = Some conveyor_time,
                       col_status_field = status_value,
                       col_process_status = Some process_status,
                       col_process_complete_status = Some process_complete_status,
                       col_product_code = fst (snd code_data),
                       col_code_description = code_description,
                       col_operator_id = fst (snd (snd code_data)),
                       col_work_order = snd (snd (snd code_data))\<rparr>])))"

definition save_combined_data_centered_conveyor :: "combined_data \<Rightarrow> world \<Rightarrow> (exn + bool) \<times> world" where
  "save_combined_data_centered_conveyor combined_data w =
     (case dict_get (key_equipment_data combined_data) ''status_records'' of
        Inl e \<Rightarrow> (Inl e, w)
      | Inr status_records \<Rightarrow>
          (if status_records = [] then
             (Inr True, logger INFO ''No equipment records to save'' [] w)
           else
             (case get_code_description (fst (snd (key_code_data combined_data))) w of
                (code_description, w1) \<Rightarrow>
                  (case build_params (key_conveyor_time combined_data) (key_code_data combined_data)
                          code_description status_records [] of
                     Inl e \<Rightarrow> (Inl e, w1)
                   | Inr params \<Rightarrow>
                       (case execute_many ''analytics'' insert_ignore params w1 of
                          (Inl e, w2) \<Rightarrow> (Inl e, w2)
                        | (Inr success, w2) \<Rightarrow>
                            (Inr success,
                             if success then
                               logger INFO ''Saved {len(params)} records with description for conveyor: {conveyor_time}''
                                 [LNat (length params), LTime (key_conveyor_time combined_data)] w2
                             else
                               logger ERROR ''Error saving records for conveyor: {conveyor_time}''
                                 [LTime (key_conveyor_time combined_data)] w2))))))"


section \<open>Reconciliation driver (processing/data\_processor.py)\<close>

text \<open>
  The time-stamp columns of the source tables are read as \<open>datetime\<close> objects, so the
  calls of \<open>_convert_to_datetime\<close> in the driver receive a \<open>datetime\<close>; the function
  itself also accepts text.
\<close>

fun convert_to_datetime :: "timeval \<Rightarrow> exn + timeval" where
  "convert_to_datetime (TText s) =
     (case strptime_either s of Inl e \<Rightarrow> Inl e | Inr d \<Rightarrow> Inr (TTime d))"
| "convert_to_datetime time_value = Inr time_value"

text \<open>
  \<open>_build_conveyor_query\<close>: the trigger events of the database's current day when the
  cursor is unset, those later than five minutes before the cursor otherwise; both in
  ascending order. The query is given by its result on the tables.
\<close>

definition day :: int where
  "day = 86400000000"

definition build_conveyor_query :: "world \<Rightarrow> (world \<Rightarrow> datetime list) \<times> world" where
  "build_conveyor_query w =
     (case last_processed_time w of
        None \<Rightarrow>
          (\<lambda>db. sort (filter (\<lambda>t. curdate db \<le> t \<and> t < curdate db + day) (tb_conveyor_requests db)),
           logger INFO ''Searching for conveyor requests from start of day'' [] w)
      | Some last_time \<Rightarrow>
          (let search_time = last_time - timedelta_minutes 5
           in (\<lambda>db. sort (filter (\<lambda>t. search_time < t) (tb_conveyor_requests db)),
               logger INFO ''Searching for conveyor requests after: {search_time}'' [LTime search_time] w)))"

text \<open>
  \<open>get_new_conveyor_requests\<close>. The \<open>try\<close> block catches every exception of the query,
  logs it and returns the empty list.
\<close>

definition get_new_conveyor_requests :: "world \<Rightarrow> datetime list \<times> world" where
  "get_new_conveyor_requests w =
     (let last_dt = last_processed_time w in
      case build_conveyor_query w of
        (query, w1) \<Rightarrow>
          (case execute_query ''equipment'' query w1 of
             (Inl e, w2) \<Rightarrow> ([], logger ERROR ''Error getting conveyor requests: {e}'' [LExn e] w2)
           | (Inr result, w2) \<Rightarrow>
               (let rows = (case result of None \<Rightarrow> [] | Some rs \<Rightarrow> rs);
                    filtered = (case last_dt of
                                  Some dt \<Rightarrow> filter (\<lambda>row. row \<ge> dt) rows
                                | None \<Rightarrow> rows)
                in (filtered,
                    logger INFO ''Found {len(rows)} requests (raw), {len(filtered)} after filtering by last_processed_time''
                      [LNat (length rows), LNat (length filtered)] w2))))"

text \<open>
  \<open>_verify_complete_cycle\<close>: whether a combined row of the previous trigger names a
  terminal phase. The \<open>try\<close> block around the query catches every exception; the loop
  over the rows stands after it, and \<open>"complete_phase_2" in status\<close> raises TypeError
  when \<open>status\<close> is \<open>None\<close>. The second column is tested for truth first, so a
  \<open>None\<close> or an empty text there is passed over.
\<close>

definition terminal_text :: "string \<Rightarrow> bool" where
  "terminal_text s = (sublist ''complete_phase_2'' s \<or> sublist ''process_complete'' s)"

fun verify_loop :: "(string option \<times> string option) list \<Rightarrow> exn + bool" where
  "verify_loop [] = Inr False"
| "verify_loop ((status, complete_status) # rest) =
     (case status of
        None \<Rightarrow> Inl TypeError
      | Some s \<Rightarrow>
          (if terminal_text s then Inr True
           else (case complete_status of
                   None \<Rightarrow> verify_loop rest
                 | Some cs \<Rightarrow>
                     (if cs \<noteq> [] \<and> terminal_text cs then Inr True else verify_loop rest))))"

definition cycle_query ::
  "datetime \<Rightarrow> datetime option \<Rightarrow> world \<Rightarrow> (string option \<times> string option) list" where
  "cycle_query conveyor_time next_conveyor_time w =
     map (\<lambda>r. (col_process_status r, col_process_complete_status r))
       (rev (sort_key col_equipment_timestamp
          (filter (\<lambda>r. col_conveyor_timestamp r = Some conveyor_time
                       \<and> (case next_conveyor_time of
                             Some n \<Rightarrow> col_equipment_timestamp r \<le> n
                           | None \<Rightarrow> True))
             (tb_combined_data w))))"

definition verify_complete_cycle ::
  "datetime \<Rightarrow> datetime option \<Rightarrow> world \<Rightarrow> (exn + bool) \<times> world" where
  "verify_complete_cycle conveyor_time next_conveyor_time w =
     (case execute_query ''analytics'' (cycle_query conveyor_time next_conveyor_time) w of
        (Inl e, w1) \<Rightarrow>
          (Inr False, logger ERROR ''Error verifying complete cycle for {conveyor_time}: {e}''
                        [LTime conveyor_time, LExn e] w1)
      | (Inr result, w1) \<Rightarrow>
          (let rows = (case result of None \<Rightarrow> [] | Some rs \<Rightarrow> rs)
           in if rows = [] then (Inr False, w1) else (verify_loop rows, w1)))"

text \<open>\<open>_calculate_end_time\<close> and \<open>_get_next_conveyor_time\<close>\<close>

definition calculate_end_time :: "datetime list \<Rightarrow> nat \<Rightarrow> datetime \<Rightarrow> datetime" where
  "calculate_end_time all_requests current_index conveyor_time =
     (if int current_index < int (length all_requests) - 1
      then all_requests ! (current_index + 1)
      else conveyor_time + timedelta_minutes 10)"

definition get_next_conveyor_time :: "datetime list \<Rightarrow> nat \<Rightarrow> datetime option" where
  "get_next_conveyor_time all_requests current_index =
     (if int current_index < int (length all_requests) - 1
      then Some (all_requests ! (current_index + 1))
      else None)"

text \<open>
  \<open>_search_corresponding_code\<close>: the earliest code event in the half-open window
  \<open>(conveyor_time, search_end_time]\<close>, at most one (\<open>LIMIT 1\<close>).
\<close>

definition code_query :: "datetime \<Rightarrow> datetime \<Rightarrow> world \<Rightarrow> code_data list" where
  "code_query conveyor_time search_end_time w =
     take 1 (sort_key fst
       (filter (\<lambda>c. conveyor_time < fst c \<and> fst c \<le> search_end_time) (tb_product_scanner w)))"

definition search_corresponding_code ::
  "datetime \<Rightarrow> datetime option \<Rightarrow> world \<Rightarrow> (exn + code_data option) \<times> world" where
  "search_corresponding_code conveyor_time next_conveyor_time w =
     (let search_end_time = (case next_conveyor_time of
                               Some n \<Rightarrow> n
                             | None \<Rightarrow> conveyor_time + timedelta_minutes 10)
      in case execute_query ''scanner'' (code_query conveyor_time search_end_time) w of
           (Inl e, w1) \<Rightarrow> (Inl e, w1)
         | (Inr (Some (c # cs)), w1) \<Rightarrow>
             (Inr (Some c),
              logger INFO ''Code found for conveyor {conveyor_time}: {result[0][0]}''
                [LTime conveyor_time, LTime (fst c)] w1)
         | (Inr _, w1) \<Rightarrow> (Inr None, w1))"

text \<open>\<open>_save_combined_data\<close>\<close>

definition save_combined_data ::
  "datetime \<Rightarrow> code_data \<Rightarrow> equipment_record list dict \<Rightarrow> world \<Rightarrow> (exn + bool) \<times> world" where
  "save_combined_data conveyor_time code_data equipment_data w =
     (let combined_data = \<lparr>key_conveyor_time = conveyor_time, key_code_data = code_data,
                            key_equipment_data = equipment_data\<rparr>
      in case save_combined_data_centered_conveyor combined_data w of
           (Inl e, w1) \<Rightarrow> (Inl e, w1)
         | (Inr True, w1) \<Rightarrow>
             (Inr True, logger INFO ''Combined data saved for conveyor request: {conveyor_time}''
                          [LTime conveyor_time] w1)
         | (Inr False, w1) \<Rightarrow> (Inr False, w1))"

text \<open>\<open>_log_processing_info\<close>: it reads \<open>equipment_data['v24_records']\<close> first.\<close>

definition log_processing_info ::
  "datetime \<Rightarrow> code_data \<Rightarrow> equipment_record list dict \<Rightarrow> world \<Rightarrow> (exn + unit) \<times> world" where
  "log_processing_info conveyor_time code_data equipment_data w =
     (case dict_get equipment_data ''v24_records'' of
        Inl e \<Rightarrow> (Inl e, w)
      | Inr v24_records \<Rightarrow>
          (Inr (),
           logger INFO ''Equipment records found: {v24_count}'' [LNat (length v24_records)]
             (logger INFO ''Associated code: {code_data[0]} - {code_data[1]}''
                [LTime (fst code_data), LStr (fst (snd code_data))]
                (logger INFO ''Conveyor request: {conveyor_time}'' [LTime conveyor_time] w))))"


text \<open>
  \<open>_process_individual_conveyor_request\<close>. The fetcher returns a \<open>dict\<close> with the key
  \<open>'status_records'\<close>; this function and \<open>_log_processing_info\<close> read the key
  \<open>'v24_records'\<close>.
\<close>

definition process_individual_conveyor_request ::
  "datetime \<Rightarrow> datetime list \<Rightarrow> nat \<Rightarrow> world \<Rightarrow> (exn + unit) \<times> world" where
  "process_individual_conveyor_request conveyor_request all_requests index w =
     (let conveyor_time = conveyor_request in
      case (if index > 0 then
              (if index - 1 < length all_requests then
                 (let prev_conveyor_time = all_requests ! (index - 1);
                      current_conveyor_time = conveyor_request
                  in case verify_complete_cycle prev_conveyor_time (Some current_conveyor_time) w of
                       (Inl e, w1) \<Rightarrow> (Inl e, w1)
                     | (Inr cycle_ok, w1) \<Rightarrow>
                         (Inr (),
                          if \<not> cycle_ok then
                            logger WARNING
                              ''Previous cycle ({prev_conveyor_time}) is not complete before {current_conveyor_time}. Marking as interrupted and continuing.''
                              [LTime prev_conveyor_time, LTime current_conveyor_time] w1
                          else w1))
               else (Inl IndexError, w))
            else (Inr (), w)) of
        (Inl e, w1) \<Rightarrow> (Inl e, w1)
      | (Inr _, w1) \<Rightarrow>
          (let end_time = calculate_end_time all_requests index conveyor_time;
               next_conveyor_time = get_next_conveyor_time all_requests index
           in case search_corresponding_code conveyor_time next_conveyor_time w1 of
                (Inl e, w2) \<Rightarrow> (Inl e, w2)
              | (Inr None, w2) \<Rightarrow>
                  (let time_str = strftime conveyor_time
                   in (Inr (),
                       if time_str \<notin> requests_without_code w2 then
                         (logger WARNING ''Skipping conveyor request {conveyor_time} - code not found''
                            [LTime conveyor_time]
                            (logger WARNING ''No code found for conveyor request: {conveyor_time}''
                               [LTime conveyor_time] w2))
                         \<lparr>requests_without_code := insert time_str (requests_without_code w2)\<rparr>
                       else w2))
              | (Inr (Some code_data), w2) \<Rightarrow>
                  (let time_str = strftime conveyor_time;
                       w3 = (if time_str \<in> requests_without_code w2
                             then w2\<lparr>requests_without_code := requests_without_code w2 - {time_str}\<rparr>
                             else w2)
                   in case get_equipment_data_by_time_range conveyor_time end_time w3 of
                        (Inl e, w4) \<Rightarrow> (Inl e, w4)
                      | (Inr equipment_data, w4) \<Rightarrow>
                          (case log_processing_info conveyor_time code_data equipment_data w4 of
                             (Inl e, w5) \<Rightarrow> (Inl e, w5)
                           | (Inr _, w5) \<Rightarrow>
                               (case dict_get equipment_data ''v24_records'' of
                                  Inl e \<Rightarrow> (Inl e, w5)
                                | Inr v24_records \<Rightarrow>
                                    (case (if v24_records \<noteq> [] then
                                             (case save_combined_data conveyor_time code_data equipment_data w5 of
                                                (Inl e, w6) \<Rightarrow> (Inl e, w6)
                                              | (Inr saved, w6) \<Rightarrow>
                                                  (if \<not> saved then
                                                     (Inr False,
                                                      logger ERROR
                                                        ''Failed saving combined data for {conveyor_time}; will not update last_processed_time for this conveyor''
                                                        [LTime conveyor_time] w6)
                                                   else (Inr True, w6)))
                                           else (Inr True, w5)) of
                                       (Inl e, w6) \<Rightarrow> (Inl e, w6)
                                     | (Inr False, w6) \<Rightarrow> (Inr (), w6)
                                     | (Inr True, w6) \<Rightarrow>
                                         (case update_last_processed_time (TTime conveyor_time) w6 of
                                            (Inl e, w7) \<Rightarrow> (Inl e, w7)
                                          | (Inr _, w7) \<Rightarrow> (Inr (), w7))))))))"

text \<open>
  \<open>process_new_conveyor_requests\<close>: the loop over \<open>enumerate(conveyor_requests)\<close>; an
  exception of one request ends it.
\<close>

fun process_requests_loop ::
  "datetime list \<Rightarrow> nat \<Rightarrow> datetime list \<Rightarrow> world \<Rightarrow> (exn + unit) \<times> world" where
  "process_requests_loop all_requests index [] w = (Inr (), w)"
| "process_requests_loop all_requests index (conveyor_request # rest) w =
     (case process_individual_conveyor_request conveyor_request all_requests index w of
        (Inl e, w1) \<Rightarrow> (Inl e, w1)
      | (Inr _, w1) \<Rightarrow> process_requests_loop all_requests (Suc index) rest w1)"

definition process_new_conveyor_requests :: "datetime list \<Rightarrow> world \<Rightarrow> (exn + unit) \<times> world" where
  "process_new_conveyor_requests conveyor_requests w =
     (if conveyor_requests = [] then
        (Inr (), logger INFO ''No new conveyor requests to process'' [] w)
      else
        process_requests_loop conveyor_requests 0 conveyor_requests
          (logger INFO ''Processing {len(conveyor_requests)} conveyor requests...''
             [LNat (length conveyor_requests)] w))"

section \<open>The process (main.py)\<close>

text \<open>\<open>show_cycle_statistics\<close>: it catches every exception of the statistics queries.\<close>

definition show_cycle_statistics :: "world \<Rightarrow> world" where
  "show_cycle_statistics w =
     (case get_processing_statistics w of
        (Inl e, w1) \<Rightarrow> logger WARNING ''Error getting statistics: {e}'' [LExn e] w1
      | (Inr _, w1) \<Rightarrow>
          logger INFO ''Processed conveyor requests: {stats}'' []
            (logger INFO ''Total records: {stats}'' [] (logger INFO ''Cycle statistics:'' [] w1)))"

text \<open>
  \<open>process_conveyor_requests\<close>, the reconciliation of one poll cycle: an exception is
  logged and raised again.
\<close>

definition process_conveyor_requests :: "world \<Rightarrow> (exn + unit) \<times> world" where
  "process_conveyor_requests w =
     (case get_new_conveyor_requests w of
        (new_conveyor_requests, w1) \<Rightarrow>
          (if new_conveyor_requests \<noteq> [] then
             (case process_new_conveyor_requests new_conveyor_requests
                     (logger INFO ''Processing {len(new_conveyor_requests)} conveyor requests''
                        [LNat (length new_conveyor_requests)] w1) of
                (Inl e, w2) \<Rightarrow>
                  (Inl e, logger ERROR ''Error processing conveyor requests: {e}'' [LExn e] w2)
              | (Inr _, w2) \<Rightarrow>
                  (Inr (), if cycle_count w2 mod 10 = 0 then show_cycle_statistics w2 else w2))
           else
             (Inr (), logger DEBUG ''No new conveyor requests to process'' [] w1)))"

text \<open>\<open>initialize_system_state\<close>\<close>

definition initialize_system_state :: "world \<Rightarrow> (exn + unit) \<times> world" where
  "initialize_system_state w =
     (if last_processed_time w = None then
        (case initialize_from_existing_data
                (logger INFO ''Initializing system from existing data...'' [] w) of
           (Inl e, w1) \<Rightarrow> (Inl e, w1)
         | (Inr _, w1) \<Rightarrow> (Inr (), w1))
      else (Inr (), w))"

text \<open>
  \<open>ProcessingSystem.__init__\<close>: of the objects it builds, only the \<open>StateManager\<close> reads
  the database in its constructor; the others store their arguments. \<open>main\<close> builds the
  system and enters \<open>run\<close>, the server loop, which is a parameter here: nothing around
  the constructor call catches an exception.
\<close>

definition ProcessingSystem_init :: "world \<Rightarrow> (exn + unit) \<times> world" where
  "ProcessingSystem_init w =
     (case StateManager_init w of
        (Inl e, w1) \<Rightarrow> (Inl e, w1)
      | (Inr _, w1) \<Rightarrow> (Inr (), w1\<lparr>cycle_count := 0\<rparr>))"

definition main :: "(world \<Rightarrow> (exn + bool) \<times> world) \<Rightarrow> world \<Rightarrow> (exn + bool) \<times> world" where
  "main run w =
     (case ProcessingSystem_init w of
        (Inl e, w1) \<Rightarrow> (Inl e, w1)
      | (Inr _, w1) \<Rightarrow> run w1)"


section \<open>Observations and example worlds\<close>

text \<open>
  The durable cursor: what a completing read of \<open>tb_processing_state\<close> yields (unset
  when there is no row or the cell is empty or cannot be parsed). Cursors are ordered
  with the unset cursor below every time stamp.
\<close>

definition durable_cursor :: "world \<Rightarrow> datetime option" where
  "durable_cursor w = (case time_of_result (tb_processing_state w) of Inl e \<Rightarrow> None | Inr t \<Rightarrow> t)"

fun cursor_le :: "datetime option \<Rightarrow> datetime option \<Rightarrow> bool" where
  "cursor_le None _ = True"
| "cursor_le (Some a) None = False"
| "cursor_le (Some a) (Some b) = (a \<le> b)"

text \<open>
  \<open>only_io w w1\<close>: the world \<open>w1\<close> differs from \<open>w\<close> at most in the outcomes still to
  come and in the log, as after reading from a database.
\<close>

definition only_io :: "world \<Rightarrow> world \<Rightarrow> bool" where
  "only_io w w1 = (w1 = w\<lparr>db_outcomes := db_outcomes w1, logged := logged w1\<rparr>)"

text \<open>
  \<open>driver_io w w1\<close>: \<open>w1\<close> differs from \<open>w\<close> at most in the outcomes still to come,
  in the log and in the driver's set of requests without code: no table and no cursor has
  changed.
\<close>

definition driver_io :: "world \<Rightarrow> world \<Rightarrow> bool" where
  "driver_io w w1 =
     (w1 = w\<lparr>db_outcomes := db_outcomes w1, logged := logged w1,
                requests_without_code := requests_without_code w1\<rparr>)"

text \<open>
  Three steps of \<open>_process_individual_conveyor_request\<close>, named for the proofs: the
  check of the previous cycle, and what the function does to the set of requests without
  code when no code was found and when one was found.
\<close>

definition check_previous_cycle ::
  "datetime \<Rightarrow> datetime list \<Rightarrow> nat \<Rightarrow> world \<Rightarrow> (exn + unit) \<times> world" where
  "check_previous_cycle t all_requests index w =
     (if index > 0 then
        (if index - 1 < length all_requests then
           (case verify_complete_cycle (all_requests ! (index - 1)) (Some t) w of
              (Inl e, w1) \<Rightarrow> (Inl e, w1)
            | (Inr cycle_ok, w1) \<Rightarrow>
                (Inr (),
                 if \<not> cycle_ok then
                   logger WARNING
                     ''Previous cycle ({prev_conveyor_time}) is not complete before {current_conveyor_time}. Marking as interrupted and continuing.''
                     [LTime (all_requests ! (index - 1)), LTime t] w1
                 else w1))
         else (Inl IndexError, w))
      else (Inr (), w))"

definition note_no_code :: "datetime \<Rightarrow> world \<Rightarrow> world" where
  "note_no_code t w =
     (if strftime t \<notin> requests_without_code w then
        (logger WARNING ''Skipping conveyor request {conveyor_time} - code not found'' [LTime t]
           (logger WARNING ''No code found for conveyor request: {conveyor_time}'' [LTime t] w))
        \<lparr>requests_without_code := insert (strftime t) (requests_without_code w)\<rparr>
      else w)"

definition note_code_found :: "datetime \<Rightarrow> world \<Rightarrow> world" where
  "note_code_found t w =
     (if strftime t \<in> requests_without_code w
      then w\<lparr>requests_without_code := requests_without_code w - {strftime t}\<rparr>
      else w)"

text \<open>
  The window of a trigger in the specification's words: it ends at the next trigger when
  there is one, and ten minutes after the trigger otherwise. The code events of the
  scanner table inside the half-open window, and the equipment samples inside it.
\<close>

definition window_end :: "datetime list \<Rightarrow> nat \<Rightarrow> datetime \<Rightarrow> datetime" where
  "window_end all_requests index t =
     (if index + 1 < length all_requests then all_requests ! (index + 1)
      else t + timedelta_minutes 10)"

definition codes_in_window :: "datetime \<Rightarrow> datetime \<Rightarrow> world \<Rightarrow> code_data list" where
  "codes_in_window t e w = filter (\<lambda>c. t < fst c \<and> fst c \<le> e) (tb_product_scanner w)"

definition samples_in_window :: "datetime \<Rightarrow> datetime \<Rightarrow> world \<Rightarrow> equipment_record list" where
  "samples_in_window t e w = filter (\<lambda>r. t < snd r \<and> snd r \<le> e) (tb_equipment_records w)"

text \<open>How often the no-code warning for the trigger \<open>t\<close> stands in the log.\<close>

definition no_code_warnings :: "datetime \<Rightarrow> world \<Rightarrow> nat" where
  "no_code_warnings t w =
     length (filter (\<lambda>e. e = (WARNING, ''No code found for conveyor request: {conveyor_time}'', [LTime t]))
               (logged w))"

text \<open>
  The trigger time stamps (those that are not NULL) and the code time stamps of the
  combined-record store.
\<close>

definition conveyor_stamps :: "world \<Rightarrow> datetime list" where
  "conveyor_stamps w = List.map_filter col_conveyor_timestamp (tb_combined_data w)"

definition code_stamps :: "world \<Rightarrow> datetime list" where
  "code_stamps w = map col_scanner_timestamp (tb_combined_data w)"

text \<open>The rows of the combined table after the duplicate-ignore insert of a batch.\<close>

definition insert_ignore_rows :: "combined_row list \<Rightarrow> combined_row list \<Rightarrow> combined_row list" where
  "insert_ignore_rows batch tb =
     fold (\<lambda>r tb. if list_ex (\<lambda>r'. same_key r' r) tb then tb else tb @ [r]) batch tb"

text \<open>The batch of combined records that the writer derives from its argument.\<close>

definition writer_batch :: "combined_data \<Rightarrow> world \<Rightarrow> combined_row list" where
  "writer_batch cd w =
     (case dict_get (key_equipment_data cd) ''status_records'' of
        Inl e \<Rightarrow> []
      | Inr status_records \<Rightarrow>
          (case build_params (key_conveyor_time cd) (key_code_data cd)
                  (fst (get_code_description (fst (snd (key_code_data cd))) w)) status_records [] of
             Inl e \<Rightarrow> []
           | Inr params \<Rightarrow> params))"

text \<open>A query reads the tables only: outcomes and log do not change its result.\<close>

definition table_query :: "(world \<Rightarrow> 'r) \<Rightarrow> bool" where
  "table_query q = (\<forall>w w1. only_io w w1 \<longrightarrow> q w1 = q w)"

text \<open>
  The repository as it stands: config/credentials.py configures the databases
  \<open>equipment\<close>, \<open>Code\<close> and \<open>Combined\<close>. Every round trip completes, the tables
  are empty and the cursor is unset.
\<close>

definition shipped :: world where
  "shipped =
     \<lparr>DB_CONFIGS = [''equipment'', ''Code'', ''Combined''],
      db_outcomes = [], curdate = 0,
      tb_conveyor_requests = [], tb_product_scanner = [], tb_equipment_records = [],
      tb_combined_data = [], tb_processing_state = None, descriptions = [],
      last_processed_time = None, requests_without_code = {}, descriptions_cache = [],
      cycle_count = 1, logged = []\<rparr>"

text \<open>
  A deployment whose credentials file names, beside \<open>equipment\<close> and \<open>Combined\<close>, the
  two databases \<open>scanner\<close> and \<open>analytics\<close> that the driver and the writer connect
  to and that config/credentials.py does not have: only there does the code get past
  \<open>connect\<close> on its way to the matcher and the writer. Otherwise as \<open>shipped\<close>.
\<close>

definition world0 :: world where
  "world0 =
     \<lparr>DB_CONFIGS = [''equipment'', ''scanner'', ''analytics'', ''Combined''],
      db_outcomes = [], curdate = 0,
      tb_conveyor_requests = [], tb_product_scanner = [], tb_equipment_records = [],
      tb_combined_data = [], tb_processing_state = None, descriptions = [],
      last_processed_time = None, requests_without_code = {}, descriptions_cache = [],
      cycle_count = 1, logged = []\<rparr>"

text \<open>The time stamp 09:00:00 of the day of these worlds, and a number of seconds.\<close>

definition nine :: datetime where
  "nine = 32400000000"

definition seconds :: "int \<Rightarrow> int" where
  "seconds n = n * 1000000"

text \<open>
  The writer's argument for the trigger of 09:00:00, the code of 09:00:05 and three
  equipment samples.
\<close>

definition cd0 :: combined_data where
  "cd0 =
     \<lparr>key_conveyor_time = nine, key_code_data = (nine + seconds 5, ''P1'', ''op'', ''wo''),
      key_equipment_data =
        [(''status_records'',
          [(PyInt 1, nine + seconds 2), (PyInt 3, nine + seconds 6), (PyInt 63, nine + seconds 9)])]\<rparr>"


text \<open>
  The repository's configuration with the cursor unset, triggers at 09:00:00 and 09:01:00
  and no code event at all.
\<close>

definition world_c7 :: world where
  "world_c7 = shipped\<lparr>tb_conveyor_requests := [nine, nine + seconds 60]\<rparr>"

text \<open>
  The world of scenario A without equipment samples: the trigger of 09:00:00 and the code
  event of 09:00:05.
\<close>

definition world_c1 :: world where
  "world_c1 =
     world0\<lparr>tb_conveyor_requests := [nine],
            tb_product_scanner := [(nine + seconds 5, ''P1'', ''op'', ''wo'')]\<rparr>"

text \<open>A combined row of the trigger of 09:00:00 with the code of 09:00:05.\<close>

definition row0 :: combined_row where
  "row0 =
     \<lparr>col_scanner_timestamp = nine + seconds 5, col_equipment_timestamp = nine + seconds 6,
      col_conveyor_timestamp = Some nine, col_status_field = PyInt 3,
      col_process_status = Some ''start_phase_2'',
      col_process_complete_status = Some ''start_phase_1 start_phase_2'',
      col_product_code = ''P1'', col_code_description = [], col_operator_id = ''op'',
      col_work_order = ''wo''\<rparr>"


section \<open>The decoder meets its specification\<close>

lemma bit_test: "(n AND push_bit k 1 \<noteq> 0) = bit (n::int) k"
  by (simp only: bit_iff_and_push_bit_not_eq_0)

lemma bit_test2: "(n AND 2 ^ k = 0) = (\<not> bit (n::int) k)"
  using bit_test [of n k] by auto

lemma STATUS_BITS_get_phase:
  "1 \<le> p \<Longrightarrow> p \<le> 6 \<Longrightarrow> STATUS_BITS_get p = phase_name p"
proof -
  assume "1 \<le> p" "p \<le> 6"
  then have "p = 1 \<or> p = 2 \<or> p = 3 \<or> p = 4 \<or> p = 5 \<or> p = 6" by arith
  then show ?thesis
    by (auto simp: STATUS_BITS_get_def STATUS_BITS_def phase_name_def str_nat.simps)
qed

text \<open>
  Scanning positions from the highest down stops at the greatest position whose bit is set.
\<close>

lemma current_loop_Max:
  "sorted (rev ps) \<Longrightarrow> distinct ps \<Longrightarrow>
   current_loop n ps =
     (if Set.filter (\<lambda>p. bit n (p - 1)) (set ps) = {} then None
      else Some (STATUS_BITS_get (Max (Set.filter (\<lambda>p. bit n (p - 1)) (set ps)))))"
proof (induction ps)
  case Nil
  show ?case by simp
next
  case (Cons p ps)
  have le: "\<forall>x\<in>set ps. x \<le> p" and srt: "sorted (rev ps)"
    using Cons.prems(1) by (auto simp: sorted_append)
  have dist: "distinct ps" using Cons.prems(2) by simp
  show ?case
  proof (cases "bit n (p - 1)")
    case True
    have "Max (Set.filter (\<lambda>p. bit n (p - 1)) (set (p # ps))) = p"
      by (rule Max_eqI) (use True le in auto)
    moreover have "Set.filter (\<lambda>p. bit n (p - 1)) (set (p # ps)) \<noteq> {}"
      using True by auto
    ultimately show ?thesis using True by (simp add: bit_test2)
  next
    case False
    have "Set.filter (\<lambda>p. bit n (p - 1)) (set (p # ps)) = Set.filter (\<lambda>p. bit n (p - 1)) (set ps)"
      using False by auto
    then show ?thesis using False Cons.IH [OF srt dist] by (simp add: bit_test2)
  qed
qed

lemma set_6_1: "set [6, 5, 4, 3, 2, 1::nat] = {1..6}"
  by auto

lemma current_loop_spec:
  "current_loop n [6, 5, 4, 3, 2, 1] =
     (if set_positions n = {} then None else Some (phase_name (Max (set_positions n))))"
proof -
  have fin: "finite (set_positions n)" by (simp add: set_positions_def)
  have sub: "set_positions n \<subseteq> {1..6}" by (auto simp: set_positions_def)
  have mem: "set_positions n \<noteq> {} \<Longrightarrow> Max (set_positions n) \<in> {1..6}"
    using Max_in [OF fin] sub by blast
  have "current_loop n [6, 5, 4, 3, 2, 1] =
     (if set_positions n = {} then None else Some (STATUS_BITS_get (Max (set_positions n))))"
    unfolding set_positions_def set_6_1 [symmetric]
    by (rule current_loop_Max) simp_all
  then show ?thesis using mem by (auto simp: STATUS_BITS_get_phase)
qed

lemma complete_loop_filter:
  "complete_loop n ps acc = acc @ map STATUS_BITS_get (filter (\<lambda>p. bit n (p - 1)) ps)"
  by (induction ps arbitrary: acc) (simp_all add: bit_test2)

lemma filter_1_6:
  "filter P [1, 2, 3, 4, 5, 6::nat] = sorted_list_of_set (Set.filter P {1..6})"
proof -
  have eq: "[1, 2, 3, 4, 5, 6::nat] = [1..<7]" by (simp add: upt_rec)
  show ?thesis unfolding eq
    by (rule sorted_distinct_set_unique) (auto simp: sorted_wrt_filter)
qed

lemma complete_loop_spec:
  "complete_loop n [1, 2, 3, 4, 5, 6] [] = map phase_name (sorted_list_of_set (set_positions n))"
proof -
  have "map STATUS_BITS_get (sorted_list_of_set (set_positions n))
        = map phase_name (sorted_list_of_set (set_positions n))"
    by (rule map_cong) (auto simp: set_positions_def STATUS_BITS_get_phase)
  then show ?thesis
    by (simp only: complete_loop_filter filter_1_6 set_positions_def append_Nil)
qed

lemma decode_status_current_eq:
  "decode_status_current v = Inr (spec_decode_current v)"
  unfolding decode_status_current_def spec_decode_current_def current_loop_spec
  by (cases v) auto

text \<open>
  Claim C5. For every input value \<open>decode_status_current\<close> returns (it raises nothing):
  \<open>no_status\<close> for a null or zero input and for an integer reading with no bit among
  positions 1..6, the phase of the highest set position among 1..6 otherwise, and
  \<open>invalid_value\<close> for an input that has no integer reading. Bits beyond position 6 are
  ignored: the value 64 decodes to \<open>no_status\<close>.
\<close>

theorem decode_status_current_spec:
  "decode_status_current v = Inr (spec_decode_current v) \<and>
   decode_status_current (PyInt 64) = Inr ''no_status''"
proof
  show "decode_status_current v = Inr (spec_decode_current v)"
    by (rule decode_status_current_eq)
  show "decode_status_current (PyInt 64) = Inr ''no_status''"
    by (simp add: decode_status_current_def)
qed

theorem decode_status_current_spec_witness:
  "spec_decode_current (PyInt 5) = ''start_phase_3'' \<and>
   spec_decode_current (PyInt 63) = ''start_phase_6'' \<and>
   spec_decode_current (PyInt 64) = ''no_status'' \<and>
   spec_decode_current PyNonIntText = ''invalid_value''"
  using decode_status_current_spec [of "PyInt 5"] decode_status_current_spec [of "PyInt 63"]
    decode_status_current_spec [of "PyInt 64"] decode_status_current_spec [of PyNonIntText]
  by (simp add: decode_status_current_def STATUS_BITS_get_def STATUS_BITS_def)

lemma set_positions_mask: "set_positions (n AND 63) = set_positions n"
proof -
  have m: "(63::int) = mask 6" by (simp add: mask_eq_exp_minus_1)
  have "bit (n AND mask 6) (p - 1) = bit n (p - 1)" if "p \<in> {1..6}" for p :: nat
    using that by (auto simp add: bit_and_iff bit_mask_iff)
  then show ?thesis unfolding set_positions_def m by auto
qed

lemma set_positions_0: "set_positions 0 = {}"
  by (simp add: set_positions_def)

lemma spec_decode_history_int:
  "spec_decode_history (PyInt n) =
     (if set_positions n = {} then ''no_states''
      else join '' '' (map phase_name (sorted_list_of_set (set_positions n))))"
  by (simp add: spec_decode_history_def set_positions_0)

lemma spec_decode_history_mask:
  "spec_decode_history (PyInt (n AND 63)) = spec_decode_history (PyInt n)"
  by (simp only: spec_decode_history_int set_positions_mask)


lemma decode_status_complete_eq:
  "decode_status_complete v = Inr (spec_decode_history v)"
  unfolding decode_status_complete_def spec_decode_history_def complete_loop_spec Let_def
  by (cases v) (auto simp: set_positions_def)

text \<open>
  Claim C6. For every input value \<open>decode_status_complete\<close> returns (it raises nothing):
  \<open>no_states\<close> for a null or zero input and for an integer reading with no bit among
  positions 1..6, the phases of all set positions among 1..6 in ascending order otherwise,
  and \<open>invalid_value\<close> for an input that has no integer reading. Bits beyond position 6
  are masked out: the value 64 decodes to \<open>no_states\<close>, and 64 + 5 decodes as 5 does.
\<close>

theorem decode_status_complete_spec:
  "decode_status_complete v = Inr (spec_decode_history v) \<and>
   decode_status_complete (PyInt 64) = Inr ''no_states'' \<and>
   decode_status_complete (PyInt n) = decode_status_complete (PyInt (n AND 63))"
proof (intro conjI)
  show "decode_status_complete v = Inr (spec_decode_history v)"
    by (rule decode_status_complete_eq)
  show "decode_status_complete (PyInt 64) = Inr ''no_states''"
    by (simp add: decode_status_complete_def)
  show "decode_status_complete (PyInt n) = decode_status_complete (PyInt (n AND 63))"
    by (simp only: decode_status_complete_eq spec_decode_history_mask)
qed

theorem decode_status_complete_spec_witness:
  "spec_decode_history (PyInt 5) = ''start_phase_1 start_phase_3'' \<and>
   spec_decode_history (PyInt 64) = ''no_states'' \<and>
   spec_decode_history PyObj = ''invalid_value'' \<and>
   decode_status_complete (PyInt 69) = decode_status_complete (PyInt 5)"
proof -
  have m: "(69::int) AND 63 = 5" by simp
  show ?thesis
    using decode_status_complete_spec [of "PyInt 5" 69] decode_status_complete_spec [of "PyInt 64" 69]
      decode_status_complete_spec [of PyObj 69]
    unfolding m
    by (simp add: decode_status_complete_def STATUS_BITS_get_def STATUS_BITS_def)
qed

section \<open>State that logging leaves alone\<close>

lemma logger_fields [simp]:
  "DB_CONFIGS (logger lv m a w) = DB_CONFIGS w"
  "db_outcomes (logger lv m a w) = db_outcomes w"
  "curdate (logger lv m a w) = curdate w"
  "tb_conveyor_requests (logger lv m a w) = tb_conveyor_requests w"
  "tb_product_scanner (logger lv m a w) = tb_product_scanner w"
  "tb_equipment_records (logger lv m a w) = tb_equipment_records w"
  "tb_combined_data (logger lv m a w) = tb_combined_data w"
  "tb_processing_state (logger lv m a w) = tb_processing_state w"
  "descriptions (logger lv m a w) = descriptions w"
  "last_processed_time (logger lv m a w) = last_processed_time w"
  "requests_without_code (logger lv m a w) = requests_without_code w"
  "descriptions_cache (logger lv m a w) = descriptions_cache w"
  "cycle_count (logger lv m a w) = cycle_count w"
  "logged (logger lv m a w) = logged w @ [(lv, m, a)]"
  by (simp_all add: logger_def)

section \<open>The writer on an empty batch\<close>

text \<open>
  Claim C10. An empty batch is a success: \<open>execute_many\<close> returns \<open>True\<close> for an empty
  parameter list and leaves the world as it is (no connection is opened, no outcome is
  consumed); \<open>save_combined_data_centered_conveyor\<close> returns \<open>True\<close> when the equipment
  data holds no status records, and only logs; and so \<open>_save_combined_data\<close>, the
  driver's call of it, returns \<open>True\<close> as well.
\<close>

theorem empty_batch_reports_success:
  "execute_many db_type stmt [] w = (Inr True, w) \<and>
   (dict_get (key_equipment_data cd) ''status_records'' = Inr [] \<longrightarrow>
      save_combined_data_centered_conveyor cd w =
        (Inr True, logger INFO ''No equipment records to save'' [] w)) \<and>
   save_combined_data t c [(''status_records'', [])] w =
     (Inr True,
      logger INFO ''Combined data saved for conveyor request: {conveyor_time}'' [LTime t]
        (logger INFO ''No equipment records to save'' [] w))"
  by (simp add: execute_many_def save_combined_data_centered_conveyor_def save_combined_data_def
      dict_get_def)

theorem empty_batch_reports_success_witness:
  "save_combined_data_centered_conveyor
     \<lparr>key_conveyor_time = nine, key_code_data = (nine + seconds 5, ''P1'', ''op'', ''wo''),
      key_equipment_data = [(''status_records'', [])]\<rparr> world0 =
     (Inr True, logger INFO ''No equipment records to save'' [] world0)"
  using empty_batch_reports_success [of "''analytics''" insert_ignore world0
    "\<lparr>key_conveyor_time = nine, key_code_data = (nine + seconds 5, ''P1'', ''op'', ''wo''),
      key_equipment_data = [(''status_records'', [])]\<rparr>"]
  by (simp add: dict_get_def)

section \<open>Reading from a database changes only outcomes and log\<close>

lemma only_io_refl [simp]: "only_io w w"
  by (simp add: only_io_def)


lemma only_io_logger [simp]: "only_io w (logger lv m a w1) = only_io w w1"
proof
  assume "only_io w (logger lv m a w1)"
  then have "logger lv m a w1 = w\<lparr>db_outcomes := db_outcomes w1, logged := logged w1 @ [(lv, m, a)]\<rparr>"
    by (simp add: only_io_def)
  then have "(logger lv m a w1)\<lparr>logged := logged w1\<rparr> = w\<lparr>db_outcomes := db_outcomes w1, logged := logged w1\<rparr>"
    by simp
  then show "only_io w w1" by (simp add: only_io_def logger_def)
next
  assume "only_io w w1"
  then have "w1 = w\<lparr>db_outcomes := db_outcomes w1, logged := logged w1\<rparr>" by (simp add: only_io_def)
  then have "logger lv m a w1 = (w\<lparr>db_outcomes := db_outcomes w1, logged := logged w1\<rparr>)\<lparr>logged := logged w1 @ [(lv, m, a)]\<rparr>"
    by (simp add: logger_def)
  then show "only_io w (logger lv m a w1)" by (simp add: only_io_def)
qed

lemma only_ioD:
  assumes "only_io w w1"
  shows "DB_CONFIGS w1 = DB_CONFIGS w" "curdate w1 = curdate w"
    "tb_conveyor_requests w1 = tb_conveyor_requests w"
    "tb_product_scanner w1 = tb_product_scanner w"
    "tb_equipment_records w1 = tb_equipment_records w"
    "tb_combined_data w1 = tb_combined_data w"
    "tb_processing_state w1 = tb_processing_state w"
    "descriptions w1 = descriptions w"
    "last_processed_time w1 = last_processed_time w"
    "requests_without_code w1 = requests_without_code w"
    "descriptions_cache w1 = descriptions_cache w"
    "cycle_count w1 = cycle_count w"
proof -
  have e: "w1 = w\<lparr>db_outcomes := db_outcomes w1, logged := logged w1\<rparr>"
    using assms by (simp add: only_io_def)
  show "DB_CONFIGS w1 = DB_CONFIGS w" by (subst e) simp
  show "curdate w1 = curdate w" by (subst e) simp
  show "tb_conveyor_requests w1 = tb_conveyor_requests w" by (subst e) simp
  show "tb_product_scanner w1 = tb_product_scanner w" by (subst e) simp
  show "tb_equipment_records w1 = tb_equipment_records w" by (subst e) simp
  show "tb_combined_data w1 = tb_combined_data w" by (subst e) simp
  show "tb_processing_state w1 = tb_processing_state w" by (subst e) simp
  show "descriptions w1 = descriptions w" by (subst e) simp
  show "last_processed_time w1 = last_processed_time w" by (subst e) simp
  show "requests_without_code w1 = requests_without_code w" by (subst e) simp
  show "descriptions_cache w1 = descriptions_cache w" by (subst e) simp
  show "cycle_count w1 = cycle_count w" by (subst e) simp
qed

lemma next_outcome_only_io: "next_outcome w = (f, w1) \<Longrightarrow> only_io w w1"
  by (auto simp: next_outcome_def only_io_def split: list.splits)

lemma connect_only_io: "connect d w = (r, w1) \<Longrightarrow> only_io w w1"
  by (auto simp: connect_def split: if_splits prod.splits db_outcome.splits
      dest: next_outcome_only_io)

lemma execute_query_only_io: "execute_query d q w = (r, w1) \<Longrightarrow> only_io w w1"
  by (auto simp: execute_query_def split: prod.splits sum.splits db_outcome.splits
      dest: connect_only_io)

section \<open>The cursor store's update\<close>

lemma execute_update_cases:
  "execute_update d stmt w = (r, w1) \<Longrightarrow>
     (r = Inr True \<and> (\<exists>w0. only_io w w0 \<and> w1 = stmt w0)) \<or> (r \<noteq> Inr True \<and> only_io w w1)"
  by (auto simp: execute_update_def split: prod.splits sum.splits db_outcome.splits
      dest: connect_only_io)

lemma persist_cases:
  "persist_last_processed_time v w = (r, w1) \<Longrightarrow>
     (r = Inr True \<and> truthy v \<and>
        (\<exists>w0. only_io w w0 \<and>
           w1 = w0\<lparr>tb_processing_state :=
                      Some (case v of TTime t \<Rightarrow> TText (strftime t) | other \<Rightarrow> other)\<rparr>))
     \<or> (r \<noteq> Inr True \<and> only_io w w1)"
  by (auto simp: persist_last_processed_time_def Let_def split: if_splits
      dest!: execute_update_cases)

lemma durable_after_persist:
  "durable_cursor (w\<lparr>tb_processing_state := Some (TText (strftime t))\<rparr>) = Some (t div 1000000 * 1000000)"
  by (simp add: durable_cursor_def time_of_result_def strftime_def strptime_either_def)

text \<open>
  Claim C3, as amended. \<open>update_last_processed_time\<close> persists first and mutates the
  in-memory cursor only when persistence succeeded: when \<open>persist_last_processed_time\<close>
  does not return \<open>True\<close> (it returns \<open>False\<close> or raises), the update returns the same
  and both the in-memory and the durable cursor are unchanged; the in-memory cursor changes
  only if persistence returned \<open>True\<close>. Persistence sends a \<open>datetime\<close> as its
  whole-second text, so after a successful update with a \<open>datetime\<close> the durable cursor is
  the in-memory cursor truncated to whole seconds: the in-memory cursor is ahead of the
  durable one by less than a second, and equal to it when the time stamp has no fraction.
\<close>

theorem update_persists_first:
  "(persist_last_processed_time v w = (r, w1) \<and> r \<noteq> Inr True \<longrightarrow>
      update_last_processed_time v w = (r, w1) \<and>
      last_processed_time w1 = last_processed_time w \<and>
      tb_processing_state w1 = tb_processing_state w) \<and>
   (last_processed_time (snd (update_last_processed_time v w)) \<noteq> last_processed_time w \<longrightarrow>
      fst (persist_last_processed_time v w) = Inr True) \<and>
   (update_last_processed_time (TTime t) w = (Inr True, w2) \<longrightarrow>
      fst (persist_last_processed_time (TTime t) w) = Inr True \<and>
      tb_processing_state w2 = Some (TText (strftime t)) \<and>
      last_processed_time w2 = Some t \<and>
      durable_cursor w2 = Some (t div 1000000 * 1000000) \<and>
      cursor_le (durable_cursor w2) (last_processed_time w2) \<and>
      t - t div 1000000 * 1000000 < 1000000 \<and>
      (t mod 1000000 = 0 \<longrightarrow> durable_cursor w2 = last_processed_time w2))"
proof (intro conjI impI)
  assume a: "persist_last_processed_time v w = (r, w1) \<and> r \<noteq> Inr True"
  then have io: "only_io w w1" using persist_cases [of v w r w1] by auto
  show "update_last_processed_time v w = (r, w1)"
    using a by (cases r) (auto simp: update_last_processed_time_def split: bool.splits)
  show "last_processed_time w1 = last_processed_time w" using io by (rule only_ioD)
  show "tb_processing_state w1 = tb_processing_state w" using io by (rule only_ioD)
next
  assume a: "last_processed_time (snd (update_last_processed_time v w)) \<noteq> last_processed_time w"
  obtain r w1 where p: "persist_last_processed_time v w = (r, w1)" by (cases "persist_last_processed_time v w")
  show "fst (persist_last_processed_time v w) = Inr True"
  proof (rule ccontr)
    assume "fst (persist_last_processed_time v w) \<noteq> Inr True"
    then have n: "r \<noteq> Inr True" using p by simp
    then have io: "only_io w w1" using persist_cases [OF p] by auto
    have "update_last_processed_time v w = (r, w1)"
      using p n by (cases r) (auto simp: update_last_processed_time_def split: bool.splits)
    then show False using a only_ioD(9) [OF io] by simp
  qed
next
  assume u: "update_last_processed_time (TTime t) w = (Inr True, w2)"
  obtain r w1 where p: "persist_last_processed_time (TTime t) w = (r, w1)"
    by (cases "persist_last_processed_time (TTime t) w")
  have r: "r = Inr True"
    using u p by (cases r) (auto simp: update_last_processed_time_def split: bool.splits)
  obtain w0 where w0: "only_io w w0" "w1 = w0\<lparr>tb_processing_state := Some (TText (strftime t))\<rparr>"
    using persist_cases [OF p] r by auto
  have w2: "w2 = logger INFO ''Time updated: {new_time}'' [LCursor (Some t)] (w1\<lparr>last_processed_time := Some t\<rparr>)"
    using u p r by (simp add: update_last_processed_time_def)
  show "fst (persist_last_processed_time (TTime t) w) = Inr True" using p r by simp
  show "tb_processing_state w2 = Some (TText (strftime t))" using w2 w0 by simp
  show "last_processed_time w2 = Some t" using w2 by simp
  show d: "durable_cursor w2 = Some (t div 1000000 * 1000000)"
    using w2 w0 by (simp add: durable_cursor_def time_of_result_def strftime_def strptime_either_def)
  show "cursor_le (durable_cursor w2) (last_processed_time w2)"
    unfolding d using w2 by simp
  show "t - t div 1000000 * 1000000 < 1000000"
    by (simp add: minus_div_mult_eq_mod)
  show "durable_cursor w2 = last_processed_time w2" if "t mod 1000000 = 0"
    unfolding d using w2 that by auto
qed

theorem update_persists_first_witness:
  "update_last_processed_time TNone world0 = (Inr False, world0) \<and>
   fst (update_last_processed_time (TTime 1500000) world0) = Inr True \<and>
   last_processed_time (snd (update_last_processed_time (TTime 1500000) world0)) = Some 1500000 \<and>
   durable_cursor (snd (update_last_processed_time (TTime 1500000) world0)) = Some 1000000"
proof -
  have p: "persist_last_processed_time TNone world0 = (Inr False, world0)"
    by (simp add: persist_last_processed_time_def)
  obtain w2 where u: "update_last_processed_time (TTime 1500000) world0 = (Inr True, w2)"
    by (simp add: update_last_processed_time_def persist_last_processed_time_def execute_update_def
        connect_def next_outcome_def world0_def)
  show ?thesis
    using update_persists_first [of TNone world0 "Inr False" world0 1500000 w2] p u by simp
qed

text \<open>
  Claim C3 as stated fails: after the update to 1.5 seconds, from a world where both
  cursors are unset, the in-memory cursor (1.5 s) is ahead of the durable one (1 s).
\<close>

theorem memory_ahead_of_durable_counterexample:
  "\<not> cursor_le (last_processed_time (snd (update_last_processed_time (TTime 1500000) world0)))
        (durable_cursor (snd (update_last_processed_time (TTime 1500000) world0)))"
  by (simp add: update_last_processed_time_def persist_last_processed_time_def execute_update_def
      connect_def next_outcome_def world0_def durable_cursor_def time_of_result_def strftime_def
      strptime_either_def)

section \<open>Reading the stored cursor at start-up\<close>

lemma connect_completes:
  "d \<in> set (DB_CONFIGS w) \<Longrightarrow> fst (next_outcome w) = Completes \<Longrightarrow>
   connect d w = (Inr Completes, logger INFO ''Successful connection to {db_type} DB'' [LStr d] (snd (next_outcome w)))"
  by (cases "next_outcome w") (auto simp: connect_def)

lemma next_outcome_snd_only_io [simp]: "only_io w (snd (next_outcome w))"
  by (cases "next_outcome w") (auto dest: next_outcome_only_io)

lemma execute_query_completes:
  assumes "d \<in> set (DB_CONFIGS w)" "fst (next_outcome w) = Completes" "table_query q"
  shows "execute_query d q w =
     (Inr (Some (q w)), logger INFO ''Successful connection to {db_type} DB'' [LStr d] (snd (next_outcome w)))"
proof -
  have "q (logger INFO ''Successful connection to {db_type} DB'' [LStr d] (snd (next_outcome w))) = q w"
    using assms(3) unfolding table_query_def by simp
  then show ?thesis unfolding execute_query_def connect_completes [OF assms(1,2)] by simp
qed

lemma table_queries [simp]:
  "table_query tb_processing_state"
  "table_query max_conveyor_query"
  "table_query max_code_query"
  unfolding table_query_def max_conveyor_query_def max_code_query_def
  by (auto dest: only_ioD(6,7))

lemma fetch_time_completes:
  assumes "''Combined'' \<in> set (DB_CONFIGS w)" "fst (next_outcome w) = Completes" "table_query q"
  shows "fetch_time q w =
     (time_of_result (q w),
      logger INFO ''Successful connection to {db_type} DB'' [LStr ''Combined''] (snd (next_outcome w)))"
  unfolding fetch_time_def execute_query_completes [OF assms] by simp

lemma fetch_time_only_io: "fetch_time q w = (r, w1) \<Longrightarrow> only_io w w1"
  by (auto simp: fetch_time_def split: prod.splits sum.splits option.splits
      dest: execute_query_only_io)

lemma StateManager_init_raises:
  "get_last_processed_time w = (Inl e, w1) \<Longrightarrow>
   StateManager_init w = (Inl e, w1) \<and> ProcessingSystem_init w = (Inl e, w1) \<and> main run w = (Inl e, w1)"
  by (simp add: StateManager_init_def ProcessingSystem_init_def main_def)

text \<open>
  Claim C9, as amended. When the read of the stored cursor completes and the stored value
  is a non-empty text, \<open>get_last_processed_time\<close> tries the whole-second format first
  and the fractional format second; when neither parses, the ValueError leaves
  \<open>get_last_processed_time\<close>, the constructors of \<open>StateManager\<close> and
  \<open>ProcessingSystem\<close> and \<open>main\<close>: the process ends before \<open>run\<close> is entered, and
  no cursor is set. An empty stored text is not parsed: it is read as an unset cursor and
  the start-up goes on.
\<close>

theorem malformed_cursor_is_fatal:
  "''Combined'' \<in> set (DB_CONFIGS w) \<and> fst (next_outcome w) = Completes \<and>
   tb_processing_state w = Some (TText s) \<longrightarrow>
     (truthy (TText s) \<longrightarrow>
        fst (get_last_processed_time w) =
          (case strptime s FmtSec of
             Inr d \<Rightarrow> Inr (Some d)
           | Inl e1 \<Rightarrow> (case strptime s FmtFrac of Inr d \<Rightarrow> Inr (Some d) | Inl e2 \<Rightarrow> Inl ValueError))) \<and>
     (truthy (TText s) \<and> strptime s FmtSec = Inl ValueError \<and> strptime s FmtFrac = Inl ValueError \<longrightarrow>
        fst (get_last_processed_time w) = Inl ValueError \<and>
        fst (StateManager_init w) = Inl ValueError \<and>
        fst (ProcessingSystem_init w) = Inl ValueError \<and>
        fst (main run w) = Inl ValueError \<and>
        last_processed_time (snd (main run w)) = last_processed_time w) \<and>
     (\<not> truthy (TText s) \<longrightarrow>
        fst (get_last_processed_time w) = Inr None \<and> fst (ProcessingSystem_init w) = Inr ())"
proof (intro impI, elim conjE)
  assume a: "''Combined'' \<in> set (DB_CONFIGS w)" "fst (next_outcome w) = Completes"
    and s: "tb_processing_state w = Some (TText s)"
  let ?w1 = "logger INFO ''Successful connection to {db_type} DB'' [LStr ''Combined''] (snd (next_outcome w))"
  have g: "get_last_processed_time w = (time_of_result (Some (TText s)), ?w1)"
    unfolding get_last_processed_time_def
    using fetch_time_completes [OF a table_queries(1)] s by simp
  have io: "only_io w ?w1" by simp
  have 1: "fst (get_last_processed_time w) =
          (case strptime s FmtSec of
             Inr d \<Rightarrow> Inr (Some d)
           | Inl e1 \<Rightarrow> (case strptime s FmtFrac of Inr d \<Rightarrow> Inr (Some d) | Inl e2 \<Rightarrow> Inl ValueError))"
    if "truthy (TText s)"
    using that g by (cases s) (auto simp: time_of_result_def strptime_either_def)
  have 2: "fst (get_last_processed_time w) = Inl ValueError \<and>
        fst (StateManager_init w) = Inl ValueError \<and>
        fst (ProcessingSystem_init w) = Inl ValueError \<and>
        fst (main run w) = Inl ValueError \<and>
        last_processed_time (snd (main run w)) = last_processed_time w"
    if t: "truthy (TText s) \<and> strptime s FmtSec = Inl ValueError \<and> strptime s FmtFrac = Inl ValueError"
  proof -
    have "time_of_result (Some (TText s)) = Inl ValueError"
      using t by (simp add: time_of_result_def strptime_either_def)
    then have "get_last_processed_time w = (Inl ValueError, ?w1)" using g by simp
    from StateManager_init_raises [OF this, of run] show ?thesis
      using \<open>get_last_processed_time w = (Inl ValueError, ?w1)\<close> only_ioD(9) [OF io] by simp
  qed
  have 3: "fst (get_last_processed_time w) = Inr None \<and> fst (ProcessingSystem_init w) = Inr ()"
    if "\<not> truthy (TText s)"
    using that g by (simp add: time_of_result_def StateManager_init_def ProcessingSystem_init_def)
  show "(truthy (TText s) \<longrightarrow>
        fst (get_last_processed_time w) =
          (case strptime s FmtSec of
             Inr d \<Rightarrow> Inr (Some d)
           | Inl e1 \<Rightarrow> (case strptime s FmtFrac of Inr d \<Rightarrow> Inr (Some d) | Inl e2 \<Rightarrow> Inl ValueError))) \<and>
     (truthy (TText s) \<and> strptime s FmtSec = Inl ValueError \<and> strptime s FmtFrac = Inl ValueError \<longrightarrow>
        fst (get_last_processed_time w) = Inl ValueError \<and>
        fst (StateManager_init w) = Inl ValueError \<and>
        fst (ProcessingSystem_init w) = Inl ValueError \<and>
        fst (main run w) = Inl ValueError \<and>
        last_processed_time (snd (main run w)) = last_processed_time w) \<and>
     (\<not> truthy (TText s) \<longrightarrow>
        fst (get_last_processed_time w) = Inr None \<and> fst (ProcessingSystem_init w) = Inr ())"
    using 1 2 3 by blast
qed

theorem malformed_cursor_is_fatal_witness:
  "fst (main (\<lambda>w. (Inr True, w)) (world0\<lparr>tb_processing_state := Some (TText (OtherText ''soon''))\<rparr>))
     = Inl ValueError \<and>
   fst (get_last_processed_time (world0\<lparr>tb_processing_state := Some (TText (SecText 5))\<rparr>))
     = Inr (Some 5000000) \<and>
   fst (get_last_processed_time (world0\<lparr>tb_processing_state := Some (TText (FracText 5000001))\<rparr>))
     = Inr (Some 5000001)"
  using malformed_cursor_is_fatal [of "world0\<lparr>tb_processing_state := Some (TText (OtherText ''soon''))\<rparr>"
      "OtherText ''soon''" "\<lambda>w. (Inr True, w)"]
    malformed_cursor_is_fatal [of "world0\<lparr>tb_processing_state := Some (TText (SecText 5))\<rparr>"
      "SecText 5" "\<lambda>w. (Inr True, w)"]
    malformed_cursor_is_fatal [of "world0\<lparr>tb_processing_state := Some (TText (FracText 5000001))\<rparr>"
      "FracText 5000001" "\<lambda>w. (Inr True, w)"]
  by (simp add: world0_def next_outcome_def)

text \<open>
  Claim C9 as stated fails at the empty text: neither format parses it, yet the read
  returns \<open>None\<close> (the unset cursor) and the constructor of the system returns normally.
\<close>

theorem empty_text_cursor_counterexample:
  "strptime (OtherText []) FmtSec = Inl ValueError \<and>
   strptime (OtherText []) FmtFrac = Inl ValueError \<and>
   fst (get_last_processed_time (world0\<lparr>tb_processing_state := Some (TText (OtherText []))\<rparr>))
     = Inr None \<and>
   fst (ProcessingSystem_init (world0\<lparr>tb_processing_state := Some (TText (OtherText []))\<rparr>))
     = Inr ()"
  by (simp add: ProcessingSystem_init_def StateManager_init_def get_last_processed_time_def
      fetch_time_def execute_query_def connect_def next_outcome_def world0_def time_of_result_def)

section \<open>Reinitialising the cursor from the data\<close>

lemma sql_max_Max: "sql_max ts = (if ts = [] then TNone else TTime (Max (set ts)))"
  by (cases ts) (simp_all add: sql_max_def Max.set_eq_fold [symmetric])

lemma next_outcome_nil: "db_outcomes w = [] \<Longrightarrow> next_outcome w = (Completes, w)"
  by (simp add: next_outcome_def)

lemma fetch_time_healthy:
  assumes "''Combined'' \<in> set (DB_CONFIGS w)" "db_outcomes w = []" "table_query q"
  shows "fetch_time q w =
     (time_of_result (q w),
      logger INFO ''Successful connection to {db_type} DB'' [LStr ''Combined''] w)"
  using fetch_time_completes [OF assms(1) _ assms(3)] assms(2) by (simp add: next_outcome_nil)

lemma persist_healthy:
  assumes "''Combined'' \<in> set (DB_CONFIGS w)" "db_outcomes w = []"
  shows "persist_last_processed_time (TTime t) w =
     (Inr True,
      (logger INFO ''Successful connection to {db_type} DB'' [LStr ''Combined''] w)
        \<lparr>tb_processing_state := Some (TText (strftime t))\<rparr>)"
  using assms
  by (simp add: persist_last_processed_time_def execute_update_def connect_def next_outcome_nil)

lemma time_of_result_max:
  "time_of_result (Some (sql_max ts)) = Inr (if ts = [] then None else Some (Max (set ts)))"
  by (simp add: sql_max_Max time_of_result_def)

lemma stamps_logger [simp]:
  "conveyor_stamps (logger lv m a w) = conveyor_stamps w"
  "code_stamps (logger lv m a w) = code_stamps w"
  by (simp_all add: conveyor_stamps_def code_stamps_def)

lemma getters_healthy:
  assumes "''Combined'' \<in> set (DB_CONFIGS w)" "db_outcomes w = []"
  shows "get_last_processed_time_from_conveyor_data w =
     (Inr (if conveyor_stamps w = [] then None else Some (Max (set (conveyor_stamps w)))),
      logger INFO ''Successful connection to {db_type} DB'' [LStr ''Combined''] w)"
    and "get_last_processed_time_from_code_data w =
     (Inr (if code_stamps w = [] then None else Some (Max (set (code_stamps w)))),
      logger INFO ''Successful connection to {db_type} DB'' [LStr ''Combined''] w)"
  unfolding get_last_processed_time_from_conveyor_data_def get_last_processed_time_from_code_data_def
  by (simp_all add: fetch_time_healthy [OF assms] max_conveyor_query_def max_code_query_def
      time_of_result_max conveyor_stamps_def code_stamps_def)

text \<open>
  Claim C8. With the combined database configured and every round trip completing,
  \<open>initialize_from_existing_data\<close> behaves as follows. When the store holds a trigger
  time stamp, it returns the greatest one, sets it in memory and persists it (as its
  whole-second text); this covers the case of a held cursor that exceeds it, which
  is logged as an inconsistency. When the store holds no trigger time stamp but a code time
  stamp, it does the same with the greatest code time stamp. When it holds neither, it
  returns \<open>None\<close> and leaves both the in-memory and the durable cursor as they were
  (unset, for the caller \<open>initialize_system_state\<close>, which calls it only when the
  cursor is unset).
\<close>

theorem initialize_from_existing_data_spec:
  "''Combined'' \<in> set (DB_CONFIGS w) \<and> db_outcomes w = [] \<longrightarrow>
     (conveyor_stamps w \<noteq> [] \<longrightarrow>
        fst (initialize_from_existing_data w) = Inr (Some (Max (set (conveyor_stamps w)))) \<and>
        last_processed_time (snd (initialize_from_existing_data w)) = Some (Max (set (conveyor_stamps w))) \<and>
        tb_processing_state (snd (initialize_from_existing_data w))
          = Some (TText (strftime (Max (set (conveyor_stamps w)))))) \<and>
     (conveyor_stamps w \<noteq> [] \<and>
      cursor_ahead (last_processed_time w) (Some (Max (set (conveyor_stamps w)))) \<longrightarrow>
        (WARNING, ''Inconsistent state! Resetting to last conveyor data: {last_conveyor_time}'',
         [LCursor (Some (Max (set (conveyor_stamps w))))]) \<in> set (logged (snd (initialize_from_existing_data w)))) \<and>
     (conveyor_stamps w = [] \<and> code_stamps w \<noteq> [] \<longrightarrow>
        fst (initialize_from_existing_data w) = Inr (Some (Max (set (code_stamps w)))) \<and>
        last_processed_time (snd (initialize_from_existing_data w)) = Some (Max (set (code_stamps w))) \<and>
        tb_processing_state (snd (initialize_from_existing_data w))
          = Some (TText (strftime (Max (set (code_stamps w)))))) \<and>
     (conveyor_stamps w = [] \<and> code_stamps w = [] \<longrightarrow>
        fst (initialize_from_existing_data w) = Inr None \<and>
        last_processed_time (snd (initialize_from_existing_data w)) = last_processed_time w \<and>
        tb_processing_state (snd (initialize_from_existing_data w)) = tb_processing_state w) \<and>
     (last_processed_time w \<noteq> None \<longrightarrow> initialize_system_state w = (Inr (), w))"
proof (intro impI, elim conjE)
  assume h: "''Combined'' \<in> set (DB_CONFIGS w)" "db_outcomes w = []"
  note defs = initialize_from_existing_data_def getters_healthy persist_healthy Let_def
  have 1: "fst (initialize_from_existing_data w) = Inr (Some (Max (set (conveyor_stamps w)))) \<and>
        last_processed_time (snd (initialize_from_existing_data w)) = Some (Max (set (conveyor_stamps w))) \<and>
        tb_processing_state (snd (initialize_from_existing_data w))
          = Some (TText (strftime (Max (set (conveyor_stamps w)))))"
    if "conveyor_stamps w \<noteq> []"
    using h that by (simp add: defs)
  have 2: "(WARNING, ''Inconsistent state! Resetting to last conveyor data: {last_conveyor_time}'',
         [LCursor (Some (Max (set (conveyor_stamps w))))]) \<in> set (logged (snd (initialize_from_existing_data w)))"
    if "conveyor_stamps w \<noteq> [] \<and>
      cursor_ahead (last_processed_time w) (Some (Max (set (conveyor_stamps w))))"
    using h that by (simp add: defs)
  have 3: "fst (initialize_from_existing_data w) = Inr (Some (Max (set (code_stamps w)))) \<and>
        last_processed_time (snd (initialize_from_existing_data w)) = Some (Max (set (code_stamps w))) \<and>
        tb_processing_state (snd (initialize_from_existing_data w))
          = Some (TText (strftime (Max (set (code_stamps w)))))"
    if "conveyor_stamps w = [] \<and> code_stamps w \<noteq> []"
    using h that by (simp add: defs)
  have 4: "fst (initialize_from_existing_data w) = Inr None \<and>
        last_processed_time (snd (initialize_from_existing_data w)) = last_processed_time w \<and>
        tb_processing_state (snd (initialize_from_existing_data w)) = tb_processing_state w"
    if "conveyor_stamps w = [] \<and> code_stamps w = []"
    using h that by (simp add: defs)
  show "(conveyor_stamps w \<noteq> [] \<longrightarrow>
        fst (initialize_from_existing_data w) = Inr (Some (Max (set (conveyor_stamps w)))) \<and>
        last_processed_time (snd (initialize_from_existing_data w)) = Some (Max (set (conveyor_stamps w))) \<and>
        tb_processing_state (snd (initialize_from_existing_data w))
          = Some (TText (strftime (Max (set (conveyor_stamps w)))))) \<and>
     (conveyor_stamps w \<noteq> [] \<and>
      cursor_ahead (last_processed_time w) (Some (Max (set (conveyor_stamps w)))) \<longrightarrow>
        (WARNING, ''Inconsistent state! Resetting to last conveyor data: {last_conveyor_time}'',
         [LCursor (Some (Max (set (conveyor_stamps w))))]) \<in> set (logged (snd (initialize_from_existing_data w)))) \<and>
     (conveyor_stamps w = [] \<and> code_stamps w \<noteq> [] \<longrightarrow>
        fst (initialize_from_existing_data w) = Inr (Some (Max (set (code_stamps w)))) \<and>
        last_processed_time (snd (initialize_from_existing_data w)) = Some (Max (set (code_stamps w))) \<and>
        tb_processing_state (snd (initialize_from_existing_data w))
          = Some (TText (strftime (Max (set (code_stamps w)))))) \<and>
     (conveyor_stamps w = [] \<and> code_stamps w = [] \<longrightarrow>
        fst (initialize_from_existing_data w) = Inr None \<and>
        last_processed_time (snd (initialize_from_existing_data w)) = last_processed_time w \<and>
        tb_processing_state (snd (initialize_from_existing_data w)) = tb_processing_state w) \<and>
     (last_processed_time w \<noteq> None \<longrightarrow> initialize_system_state w = (Inr (), w))"
    using 1 2 3 4 by (auto simp: initialize_system_state_def)
qed


theorem initialize_from_existing_data_spec_witness:
  "fst (initialize_from_existing_data
          (world0\<lparr>tb_combined_data := [row0], last_processed_time := Some (nine + seconds 3600)\<rparr>))
     = Inr (Some nine) \<and>
   last_processed_time (snd (initialize_from_existing_data
          (world0\<lparr>tb_combined_data := [row0], last_processed_time := Some (nine + seconds 3600)\<rparr>)))
     = Some nine \<and>
   fst (initialize_from_existing_data
          (world0\<lparr>tb_combined_data := [row0\<lparr>col_conveyor_timestamp := None\<rparr>]\<rparr>))
     = Inr (Some (nine + seconds 5)) \<and>
   fst (initialize_from_existing_data world0) = Inr None \<and>
   last_processed_time (snd (initialize_from_existing_data world0)) = None"
  using initialize_from_existing_data_spec
      [of "world0\<lparr>tb_combined_data := [row0], last_processed_time := Some (nine + seconds 3600)\<rparr>"]
    initialize_from_existing_data_spec
      [of "world0\<lparr>tb_combined_data := [row0\<lparr>col_conveyor_timestamp := None\<rparr>]\<rparr>"]
    initialize_from_existing_data_spec [of world0]
  by (simp add: world0_def row0_def conveyor_stamps_def code_stamps_def)

section \<open>The duplicate-ignore insert\<close>

lemma insert_ignore_rows_simps [simp]:
  "insert_ignore_rows [] tb = tb"
  "insert_ignore_rows (r # rs) tb =
     insert_ignore_rows rs (if list_ex (\<lambda>r'. same_key r' r) tb then tb else tb @ [r])"
  by (simp_all add: insert_ignore_rows_def)

lemma fold_insert_ignore:
  "fold insert_ignore batch w = w\<lparr>tb_combined_data := insert_ignore_rows batch (tb_combined_data w)\<rparr>"
proof (induction batch arbitrary: w)
  case Nil
  show ?case by simp
next
  case (Cons r rs)
  have "fold insert_ignore (r # rs) w = fold insert_ignore rs (insert_ignore r w)" by simp
  also have "\<dots> = (insert_ignore r w)
      \<lparr>tb_combined_data := insert_ignore_rows rs (tb_combined_data (insert_ignore r w))\<rparr>"
    by (rule Cons.IH)
  also have "\<dots> = w\<lparr>tb_combined_data := insert_ignore_rows (r # rs) (tb_combined_data w)\<rparr>"
    by (simp add: insert_ignore_def)
  finally show ?case .
qed

lemma insert_ignore_rows_grows: "\<exists>ys. insert_ignore_rows batch tb = tb @ ys"
proof (induction batch arbitrary: tb)
  case Nil
  show ?case by simp
next
  case (Cons r rs)
  obtain ys where "insert_ignore_rows rs (if list_ex (\<lambda>r'. same_key r' r) tb then tb else tb @ [r])
      = (if list_ex (\<lambda>r'. same_key r' r) tb then tb else tb @ [r]) @ ys"
    using Cons.IH by blast
  then show ?case by (cases "list_ex (\<lambda>r'. same_key r' r) tb") auto
qed

lemma insert_ignore_rows_keeps:
  "list_ex (\<lambda>r'. same_key r' r) tb \<Longrightarrow> list_ex (\<lambda>r'. same_key r' r) (insert_ignore_rows batch tb)"
  using insert_ignore_rows_grows [of batch tb] by (auto simp: list_ex_iff)

text \<open>After the insert, the key of every row of the batch with a trigger time stamp is in the table.\<close>

lemma insert_ignore_rows_covers:
  "\<forall>r\<in>set batch. col_conveyor_timestamp r \<noteq> None \<Longrightarrow>
   \<forall>r\<in>set batch. list_ex (\<lambda>r'. same_key r' r) (insert_ignore_rows batch tb)"
proof (induction batch arbitrary: tb)
  case Nil
  show ?case by simp
next
  case (Cons r rs)
  let ?tb = "if list_ex (\<lambda>r'. same_key r' r) tb then tb else tb @ [r]"
  have "same_key r r" using Cons.prems by (simp add: same_key_def)
  then have "list_ex (\<lambda>r'. same_key r' r) ?tb" by (auto simp: list_ex_iff)
  then have "list_ex (\<lambda>r'. same_key r' r) (insert_ignore_rows rs ?tb)"
    by (rule insert_ignore_rows_keeps)
  moreover have "\<forall>x\<in>set rs. list_ex (\<lambda>r'. same_key r' x) (insert_ignore_rows rs ?tb)"
    using Cons.IH [of ?tb] Cons.prems by simp
  ultimately show ?case by simp
qed

text \<open>A batch whose keys are all in the table changes nothing.\<close>

lemma insert_ignore_rows_noop:
  "\<forall>r\<in>set batch. list_ex (\<lambda>r'. same_key r' r) tb \<Longrightarrow> insert_ignore_rows batch tb = tb"
  by (induction batch) simp_all

lemma insert_ignore_rows_idem:
  "\<forall>r\<in>set batch. col_conveyor_timestamp r \<noteq> None \<Longrightarrow>
   insert_ignore_rows batch (insert_ignore_rows batch tb) = insert_ignore_rows batch tb"
  by (rule insert_ignore_rows_noop) (rule insert_ignore_rows_covers)

lemma build_params_rows:
  "build_params ct cd desc recs acc = Inr ps \<Longrightarrow>
   \<forall>r\<in>set acc. col_conveyor_timestamp r \<noteq> None \<Longrightarrow>
   \<forall>r\<in>set ps. col_conveyor_timestamp r \<noteq> None"
proof (induction recs arbitrary: acc)
  case Nil
  then show ?case by simp
next
  case (Cons x xs)
  then show ?case
    by (auto simp: Let_def split: sum.splits)
qed

section \<open>Running the writer twice\<close>

lemma build_params_total: "\<exists>ps. build_params ct cd desc recs acc = Inr ps"
  by (induction recs arbitrary: acc)
     (simp_all add: Let_def decode_status_current_eq decode_status_complete_eq)

lemma execute_many_cases:
  "execute_many d insert_ignore ps w = (r, w1) \<Longrightarrow>
     (r = Inr True \<and>
        (\<exists>w0. only_io w w0 \<and> w1 = w0\<lparr>tb_combined_data := insert_ignore_rows ps (tb_combined_data w0)\<rparr>))
     \<or> (r \<noteq> Inr True \<and> only_io w w1)"
proof (cases "ps = []")
  case True
  assume "execute_many d insert_ignore ps w = (r, w1)"
  then have "r = Inr True" "w1 = w" using True by (simp_all add: execute_many_def)
  then have "only_io w w \<and> w1 = w\<lparr>tb_combined_data := insert_ignore_rows ps (tb_combined_data w)\<rparr>"
    using True by simp
  then show ?thesis using \<open>r = Inr True\<close> by blast
next
  case False
  assume "execute_many d insert_ignore ps w = (r, w1)"
  then show ?thesis using False
    by (auto simp: execute_many_def fold_insert_ignore
        split: prod.splits sum.splits db_outcome.splits dest: connect_only_io)
qed

lemma get_code_description_world:
  "snd (get_code_description pc w) =
     w\<lparr>descriptions_cache := AList.update pc (fst (get_code_description pc w)) (descriptions_cache w)\<rparr>"
  by (simp add: get_code_description_def Let_def)

lemma get_code_description_fst:
  "descriptions w1 = descriptions w \<Longrightarrow>
   fst (get_code_description pc w1) = fst (get_code_description pc w)"
  by (simp add: get_code_description_def Let_def)

lemma writer_batch_descriptions:
  assumes "descriptions w1 = descriptions w"
  shows "writer_batch cd w1 = writer_batch cd w"
proof -
  have "fst (get_code_description pc w1) = fst (get_code_description pc w)" for pc
    using assms by (rule get_code_description_fst)
  then show ?thesis by (auto simp: writer_batch_def split: sum.splits)
qed

lemma writer_batch_keys: "\<forall>r\<in>set (writer_batch cd w). col_conveyor_timestamp r \<noteq> None"
proof (cases "dict_get (key_equipment_data cd) ''status_records''")
  case (Inl e)
  then show ?thesis by (simp add: writer_batch_def)
next
  case (Inr recs)
  obtain ps where ps: "build_params (key_conveyor_time cd) (key_code_data cd)
      (fst (get_code_description (fst (snd (key_code_data cd))) w)) recs [] = Inr ps"
    using build_params_total by blast
  have "\<forall>r\<in>set ps. col_conveyor_timestamp r \<noteq> None"
    using build_params_rows [OF ps] by simp
  then show ?thesis using Inr ps by (simp add: writer_batch_def)
qed

lemma get_code_description_tables [simp]:
  "descriptions (snd (get_code_description pc w)) = descriptions w"
  "tb_combined_data (snd (get_code_description pc w)) = tb_combined_data w"
  "tb_processing_state (snd (get_code_description pc w)) = tb_processing_state w"
  "last_processed_time (snd (get_code_description pc w)) = last_processed_time w"
  "DB_CONFIGS (snd (get_code_description pc w)) = DB_CONFIGS w"
  "db_outcomes (snd (get_code_description pc w)) = db_outcomes w"
  by (simp_all add: get_code_description_def Let_def)

text \<open>What a call of the writer does to the combined table and to the catalogue.\<close>

lemma save_effect:
  assumes "save_combined_data_centered_conveyor cd w = (r, w1)"
  shows "descriptions w1 = descriptions w \<and>
         (r = Inr True \<longrightarrow>
            tb_combined_data w1 = insert_ignore_rows (writer_batch cd w) (tb_combined_data w)) \<and>
         (r \<noteq> Inr True \<longrightarrow> tb_combined_data w1 = tb_combined_data w)"
proof (cases "dict_get (key_equipment_data cd) ''status_records''")
  case (Inl e)
  then show ?thesis using assms by (auto simp: save_combined_data_centered_conveyor_def)
next
  case (Inr recs)
  let ?pc = "fst (snd (key_code_data cd))"
  let ?wA = "snd (get_code_description ?pc w)"
  obtain ps where ps: "build_params (key_conveyor_time cd) (key_code_data cd)
      (fst (get_code_description ?pc w)) recs [] = Inr ps"
    using build_params_total by blast
  have batch: "writer_batch cd w = ps" using Inr ps by (simp add: writer_batch_def)
  show ?thesis
  proof (cases "recs = []")
    case True
    then have "ps = []" using ps by simp
    then show ?thesis using assms Inr True batch
      by (auto simp: save_combined_data_centered_conveyor_def)
  next
    case False
    obtain r2 w2 where em: "execute_many ''analytics'' insert_ignore ps ?wA = (r2, w2)"
      by (cases "execute_many ''analytics'' insert_ignore ps ?wA")
    have res: "r = r2 \<and> descriptions w1 = descriptions w2 \<and> tb_combined_data w1 = tb_combined_data w2"
      using assms Inr False ps em
      by (cases r2) (auto simp: save_combined_data_centered_conveyor_def split: prod.splits)
    from execute_many_cases [OF em] show ?thesis
    proof
      assume "r2 = Inr True \<and>
        (\<exists>w0. only_io ?wA w0 \<and> w2 = w0\<lparr>tb_combined_data := insert_ignore_rows ps (tb_combined_data w0)\<rparr>)"
      then obtain w0 where w0: "r2 = Inr True" "only_io ?wA w0"
        "w2 = w0\<lparr>tb_combined_data := insert_ignore_rows ps (tb_combined_data w0)\<rparr>" by blast
      have "descriptions w2 = descriptions w" "tb_combined_data w2 = insert_ignore_rows ps (tb_combined_data w)"
        using w0(3) only_ioD(6) [OF w0(2)] only_ioD(8) [OF w0(2)] by simp_all
      then show ?thesis using res w0(1) batch by simp
    next
      assume a: "r2 \<noteq> Inr True \<and> only_io ?wA w2"
      have "descriptions w2 = descriptions w" "tb_combined_data w2 = tb_combined_data w"
        using only_ioD(6) [of ?wA w2] only_ioD(8) [of ?wA w2] a by simp_all
      then show ?thesis using res a by simp
    qed
  qed
qed

lemma build_params_length:
  "build_params ct cd desc recs acc = Inr ps \<Longrightarrow> length ps = length acc + length recs"
  by (induction recs arbitrary: acc) (auto simp: Let_def split: sum.splits)

lemma next_outcome_fst:
  "db_outcomes w1 = db_outcomes w \<Longrightarrow> fst (next_outcome w1) = fst (next_outcome w)"
  by (simp add: next_outcome_def split: list.splits)

text \<open>The writer succeeds when its round trip completes.\<close>

lemma save_completes:
  assumes "dict_get (key_equipment_data cd) ''status_records'' = Inr recs"
    and "recs = [] \<or> ''analytics'' \<in> set (DB_CONFIGS w) \<and> fst (next_outcome w) = Completes"
  shows "fst (save_combined_data_centered_conveyor cd w) = Inr True"
proof (cases "recs = []")
  case True
  then show ?thesis using assms(1) by (simp add: save_combined_data_centered_conveyor_def)
next
  case False
  let ?pc = "fst (snd (key_code_data cd))"
  let ?wA = "snd (get_code_description ?pc w)"
  obtain ps where ps: "build_params (key_conveyor_time cd) (key_code_data cd)
      (fst (get_code_description ?pc w)) recs [] = Inr ps"
    using build_params_total by blast
  have ne: "ps \<noteq> []" using build_params_length [OF ps] False by auto
  have c: "''analytics'' \<in> set (DB_CONFIGS ?wA)" "fst (next_outcome ?wA) = Completes"
    using assms(2) False next_outcome_fst [of ?wA w] by simp_all
  have "fst (execute_many ''analytics'' insert_ignore ps ?wA) = Inr True"
    using ne by (simp add: execute_many_def connect_completes [OF c])
  then show ?thesis using assms(1) False ps
    by (simp add: save_combined_data_centered_conveyor_def case_prod_unfold)
qed

text \<open>A writer that succeeded had records to read, and its database configured if there were any.\<close>

lemma save_success_configured:
  assumes "save_combined_data_centered_conveyor cd w = (Inr True, w1)"
  shows "\<exists>recs. dict_get (key_equipment_data cd) ''status_records'' = Inr recs \<and>
           (recs = [] \<or> ''analytics'' \<in> set (DB_CONFIGS w1))"
proof (cases "dict_get (key_equipment_data cd) ''status_records''")
  case (Inl e)
  then show ?thesis using assms by (simp add: save_combined_data_centered_conveyor_def)
next
  case (Inr recs)
  show ?thesis
  proof (cases "recs = []")
    case True
    then show ?thesis using Inr by simp
  next
    case False
    let ?pc = "fst (snd (key_code_data cd))"
    let ?wA = "snd (get_code_description ?pc w)"
    obtain ps where ps: "build_params (key_conveyor_time cd) (key_code_data cd)
        (fst (get_code_description ?pc w)) recs [] = Inr ps"
      using build_params_total by blast
    have ne: "ps \<noteq> []" using build_params_length [OF ps] False by auto
    obtain r2 w2 where em: "execute_many ''analytics'' insert_ignore ps ?wA = (r2, w2)"
      by (cases "execute_many ''analytics'' insert_ignore ps ?wA")
    have res: "r2 = Inr True \<and> DB_CONFIGS w1 = DB_CONFIGS w2"
      using assms Inr False ps em
      by (cases r2) (auto simp: save_combined_data_centered_conveyor_def split: prod.splits if_splits)
    have conf: "''analytics'' \<in> set (DB_CONFIGS ?wA)"
    proof (rule ccontr)
      assume "''analytics'' \<notin> set (DB_CONFIGS ?wA)"
      then have "fst (execute_many ''analytics'' insert_ignore ps ?wA) = Inl ValueError"
        using ne by (simp add: execute_many_def connect_def)
      then show False using em res by simp
    qed
    obtain w0 where w0: "only_io ?wA w0"
      "w2 = w0\<lparr>tb_combined_data := insert_ignore_rows ps (tb_combined_data w0)\<rparr>"
      using execute_many_cases [OF em] res by blast
    have "DB_CONFIGS w2 = DB_CONFIGS w" using w0(2) only_ioD(1) [OF w0(1)] by simp
    then show ?thesis using Inr conf res by simp
  qed
qed

text \<open>
  Where the writer gets as far as its INSERT IGNORE, a second run is idle: when the writer
  has run with success on a batch, running it again on the same batch leaves the combined
  table exactly as it was, every key of the batch being there already, and the second run
  reports success whenever its round trip completes. For a batch with rows this needs a
  configuration that names the database \<open>analytics\<close> (lemma
  \<open>save_success_configured\<close>).
\<close>

lemma writer_twice_is_once:
  "save_combined_data_centered_conveyor cd w = (Inr True, w1) \<longrightarrow>
     tb_combined_data (snd (save_combined_data_centered_conveyor cd w1)) = tb_combined_data w1 \<and>
     length (tb_combined_data (snd (save_combined_data_centered_conveyor cd w1)))
       = length (tb_combined_data w1) \<and>
     (fst (next_outcome w1) = Completes \<longrightarrow>
        fst (save_combined_data_centered_conveyor cd w1) = Inr True)"
proof
  assume first: "save_combined_data_centered_conveyor cd w = (Inr True, w1)"
  obtain r2 w2 where second: "save_combined_data_centered_conveyor cd w1 = (r2, w2)"
    by (cases "save_combined_data_centered_conveyor cd w1")
  have d: "descriptions w1 = descriptions w"
    and t1: "tb_combined_data w1 = insert_ignore_rows (writer_batch cd w) (tb_combined_data w)"
    using save_effect [OF first] by simp_all
  have b: "writer_batch cd w1 = writer_batch cd w" using d by (rule writer_batch_descriptions)
  have idem: "insert_ignore_rows (writer_batch cd w) (tb_combined_data w1) = tb_combined_data w1"
    unfolding t1 by (rule insert_ignore_rows_idem) (rule writer_batch_keys)
  have t2: "tb_combined_data w2 = tb_combined_data w1"
    using save_effect [OF second] b idem by (cases "r2 = Inr True") simp_all
  obtain recs where recs: "dict_get (key_equipment_data cd) ''status_records'' = Inr recs"
    "recs = [] \<or> ''analytics'' \<in> set (DB_CONFIGS w1)"
    using save_success_configured [OF first] by blast
  have ok: "fst (save_combined_data_centered_conveyor cd w1) = Inr True"
    if "fst (next_outcome w1) = Completes"
    using save_completes [OF recs(1), of w1] recs(2) that by blast
  show "tb_combined_data (snd (save_combined_data_centered_conveyor cd w1)) = tb_combined_data w1 \<and>
     length (tb_combined_data (snd (save_combined_data_centered_conveyor cd w1)))
       = length (tb_combined_data w1) \<and>
     (fst (next_outcome w1) = Completes \<longrightarrow>
        fst (save_combined_data_centered_conveyor cd w1) = Inr True)"
    using t2 second ok by simp
qed

lemma decode_values:
  "decode_status_current (PyInt 1) = Inr ''start_phase_1''"
  "decode_status_current (PyInt 3) = Inr ''start_phase_2''"
  "decode_status_current (PyInt 63) = Inr ''start_phase_6''"
  "decode_status_complete (PyInt 1) = Inr ''start_phase_1''"
  "decode_status_complete (PyInt 3) = Inr ''start_phase_1 start_phase_2''"
  "decode_status_complete (PyInt 63) =
     Inr ''start_phase_1 start_phase_2 start_phase_3 start_phase_4 start_phase_5 start_phase_6''"
  by (simp_all add: decode_status_current_def decode_status_complete_def STATUS_BITS_get_def
      STATUS_BITS_def)

lemma first_run:
  "\<exists>w1. save_combined_data_centered_conveyor cd0 world0 = (Inr True, w1) \<and>
        length (tb_combined_data w1) = 3 \<and> db_outcomes w1 = []"
  by (simp add: save_combined_data_centered_conveyor_def cd0_def world0_def dict_get_def
      get_code_description_def decode_values execute_many_def connect_def next_outcome_def
      insert_ignore_def same_key_def nine_def seconds_def)

lemma writer_twice_is_once_configured:
  "fst (save_combined_data_centered_conveyor cd0 world0) = Inr True \<and>
   length (tb_combined_data (snd (save_combined_data_centered_conveyor cd0 world0))) = 3 \<and>
   fst (save_combined_data_centered_conveyor cd0
          (snd (save_combined_data_centered_conveyor cd0 world0))) = Inr True \<and>
   length (tb_combined_data (snd (save_combined_data_centered_conveyor cd0
          (snd (save_combined_data_centered_conveyor cd0 world0))))) = 3"
proof -
  obtain w1 where w1: "save_combined_data_centered_conveyor cd0 world0 = (Inr True, w1)"
    "length (tb_combined_data w1) = 3" "db_outcomes w1 = []"
    using first_run by blast
  have "fst (next_outcome w1) = Completes" using w1(3) by (simp add: next_outcome_def)
  then show ?thesis using writer_twice_is_once [of cd0 world0 w1] w1 by simp
qed


section \<open>The writer in the repository's configuration\<close>

lemma connect_unconfigured:
  "d \<notin> set (DB_CONFIGS w) \<Longrightarrow> connect d w = (Inl ValueError, w)"
  by (simp add: connect_def)

lemma execute_query_unconfigured:
  "d \<notin> set (DB_CONFIGS w) \<Longrightarrow> execute_query d q w = (Inl ValueError, w)"
  by (simp add: execute_query_def connect_unconfigured)

lemma execute_many_unconfigured:
  "d \<notin> set (DB_CONFIGS w) \<Longrightarrow> ps \<noteq> [] \<Longrightarrow> execute_many d stmt ps w = (Inl ValueError, w)"
  by (simp add: execute_many_def connect_unconfigured)

text \<open>
  The writer connects to \<open>analytics\<close>. Where that name is not configured, every batch
  with at least one record makes the writer raise ValueError before anything is inserted.
\<close>

lemma writer_unconfigured:
  assumes "''analytics'' \<notin> set (DB_CONFIGS w)"
    and "dict_get (key_equipment_data cd) ''status_records'' = Inr recs" and "recs \<noteq> []"
  shows "fst (save_combined_data_centered_conveyor cd w) = Inl ValueError"
    and "tb_combined_data (snd (save_combined_data_centered_conveyor cd w)) = tb_combined_data w"
proof -
  let ?w1 = "snd (get_code_description (fst (snd (key_code_data cd))) w)"
  let ?desc = "fst (get_code_description (fst (snd (key_code_data cd))) w)"
  obtain ps where ps: "build_params (key_conveyor_time cd) (key_code_data cd) ?desc recs [] = Inr ps"
    using build_params_total by blast
  have "length ps = length recs" using build_params_length [OF ps] by simp
  then have ne: "ps \<noteq> []" using assms(3) by auto
  have conf: "''analytics'' \<notin> set (DB_CONFIGS ?w1)" using assms(1) by simp
  have em: "execute_many ''analytics'' insert_ignore ps ?w1 = (Inl ValueError, ?w1)"
    using conf ne by (rule execute_many_unconfigured)
  have "save_combined_data_centered_conveyor cd w = (Inl ValueError, ?w1)"
    using assms(2,3) ps em
    by (simp add: save_combined_data_centered_conveyor_def case_prod_unfold)
  then show "fst (save_combined_data_centered_conveyor cd w) = Inl ValueError"
    and "tb_combined_data (snd (save_combined_data_centered_conveyor cd w)) = tb_combined_data w"
    by simp_all
qed


section \<open>The driver changes no table and no cursor\<close>

lemma driver_io_refl [simp]: "driver_io w w"
  by (simp add: driver_io_def)

lemma only_io_driver_io: "only_io w w1 \<Longrightarrow> driver_io w w1"
proof -
  assume "only_io w w1"
  then have e: "w1 = w\<lparr>db_outcomes := db_outcomes w1, logged := logged w1\<rparr>"
    by (simp add: only_io_def)
  have "w1\<lparr>requests_without_code := requests_without_code w1\<rparr> = w1" by simp
  then have "w1 = (w\<lparr>db_outcomes := db_outcomes w1, logged := logged w1\<rparr>)
      \<lparr>requests_without_code := requests_without_code w1\<rparr>"
    using e by metis
  then show ?thesis by (simp add: driver_io_def)
qed

lemma driver_io_trans: "driver_io w w1 \<Longrightarrow> driver_io w1 w2 \<Longrightarrow> driver_io w w2"
  unfolding driver_io_def
proof -
  assume a: "w1 = w\<lparr>db_outcomes := db_outcomes w1, logged := logged w1,
      requests_without_code := requests_without_code w1\<rparr>"
    and b: "w2 = w1\<lparr>db_outcomes := db_outcomes w2, logged := logged w2,
      requests_without_code := requests_without_code w2\<rparr>"
  have "w2 = (w\<lparr>db_outcomes := db_outcomes w1, logged := logged w1,
      requests_without_code := requests_without_code w1\<rparr>)
               \<lparr>db_outcomes := db_outcomes w2, logged := logged w2,
      requests_without_code := requests_without_code w2\<rparr>"
    using a b by simp
  then show "w2 = w\<lparr>db_outcomes := db_outcomes w2, logged := logged w2,
      requests_without_code := requests_without_code w2\<rparr>" by simp
qed

lemma driver_io_logger [simp]: "driver_io w (logger lv m a w1) = driver_io w w1"
proof
  assume "driver_io w (logger lv m a w1)"
  then have "logger lv m a w1 = w\<lparr>db_outcomes := db_outcomes w1, logged := logged w1 @ [(lv, m, a)],
      requests_without_code := requests_without_code w1\<rparr>"
    by (simp add: driver_io_def)
  then have "(logger lv m a w1)\<lparr>logged := logged w1\<rparr> = w\<lparr>db_outcomes := db_outcomes w1,
      logged := logged w1, requests_without_code := requests_without_code w1\<rparr>"
    by simp
  then show "driver_io w w1" by (simp add: driver_io_def logger_def)
next
  assume "driver_io w w1"
  then have "w1 = w\<lparr>db_outcomes := db_outcomes w1, logged := logged w1,
      requests_without_code := requests_without_code w1\<rparr>" by (simp add: driver_io_def)
  then have "logger lv m a w1 = (w\<lparr>db_outcomes := db_outcomes w1, logged := logged w1,
      requests_without_code := requests_without_code w1\<rparr>)\<lparr>logged := logged w1 @ [(lv, m, a)]\<rparr>"
    by (simp add: logger_def)
  then show "driver_io w (logger lv m a w1)" by (simp add: driver_io_def)
qed

lemma driver_io_rwc [simp]: "driver_io w (w1\<lparr>requests_without_code := S\<rparr>) = driver_io w w1"
proof
  assume "driver_io w (w1\<lparr>requests_without_code := S\<rparr>)"
  then have "w1\<lparr>requests_without_code := S\<rparr> = w\<lparr>db_outcomes := db_outcomes w1, logged := logged w1,
      requests_without_code := S\<rparr>"
    by (simp add: driver_io_def)
  then have "(w1\<lparr>requests_without_code := S\<rparr>)\<lparr>requests_without_code := requests_without_code w1\<rparr>
      = w\<lparr>db_outcomes := db_outcomes w1, logged := logged w1,
      requests_without_code := requests_without_code w1\<rparr>"
    by simp
  then show "driver_io w w1" by (simp add: driver_io_def)
next
  assume "driver_io w w1"
  then have "w1 = w\<lparr>db_outcomes := db_outcomes w1, logged := logged w1,
      requests_without_code := requests_without_code w1\<rparr>" by (simp add: driver_io_def)
  then have "w1\<lparr>requests_without_code := S\<rparr> = (w\<lparr>db_outcomes := db_outcomes w1, logged := logged w1,
      requests_without_code := requests_without_code w1\<rparr>)\<lparr>requests_without_code := S\<rparr>"
    by simp
  then show "driver_io w (w1\<lparr>requests_without_code := S\<rparr>)" by (simp add: driver_io_def)
qed


lemma verify_complete_cycle_only_io:
  "verify_complete_cycle t n w = (b, w1) \<Longrightarrow> only_io w w1"
  by (auto simp: verify_complete_cycle_def Let_def split: prod.splits sum.splits if_splits
      dest: execute_query_only_io)

lemma search_corresponding_code_only_io:
  "search_corresponding_code t n w = (r, w1) \<Longrightarrow> only_io w w1"
  by (auto simp: search_corresponding_code_def Let_def
      split: prod.splits sum.splits option.splits list.splits dest: execute_query_only_io)

lemma get_equipment_data_only_io:
  "get_equipment_data_by_time_range s e w = (r, w1) \<Longrightarrow> only_io w w1"
  by (auto simp: get_equipment_data_by_time_range_def Let_def split: prod.splits sum.splits
      dest: execute_query_only_io)

text \<open>The fetcher's \<open>dict\<close> has the key \<open>'status_records'\<close> and no other.\<close>

lemma get_equipment_data_dict:
  "get_equipment_data_by_time_range s e w = (Inr d, w1) \<Longrightarrow> \<exists>rows. d = [(''status_records'', rows)]"
  by (auto simp: get_equipment_data_by_time_range_def Let_def split: prod.splits sum.splits)

lemma log_processing_info_raises:
  "log_processing_info t c [(''status_records'', rows)] w = (Inl (KeyError ''v24_records''), w)"
  by (simp add: log_processing_info_def dict_get_def)

text \<open>
  The fetcher's \<open>dict\<close> never has the key \<open>'v24_records'\<close>, so a request whose code was
  found ends in \<open>_log_processing_info\<close> with a KeyError: what follows it in
  \<open>_process_individual_conveyor_request\<close>, the writer and the cursor update, is never
  reached.
\<close>

lemma after_fetch:
  "(case get_equipment_data_by_time_range t e w3 of
      (Inl x, w4) \<Rightarrow> (Inl x, w4)
    | (Inr d, w4) \<Rightarrow>
        (case log_processing_info t c d w4 of
           (Inl x, w5) \<Rightarrow> (Inl x, w5)
         | (Inr u, w5) \<Rightarrow> rest d w5)) =
   (case get_equipment_data_by_time_range t e w3 of
      (Inl x, w4) \<Rightarrow> (Inl x, w4)
    | (Inr d, w4) \<Rightarrow> (Inl (KeyError ''v24_records''), w4))"
proof (cases "get_equipment_data_by_time_range t e w3")
  case (Pair r w4)
  show ?thesis
  proof (cases r)
    case (Inl x)
    then show ?thesis using Pair by simp
  next
    case (Inr d)
    then obtain rows where "d = [(''status_records'', rows)]"
      using Pair get_equipment_data_dict by blast
    then show ?thesis using Pair Inr by (simp add: log_processing_info_raises)
  qed
qed

lemma process_individual_reached:
  "process_individual_conveyor_request t all i w =
     (case check_previous_cycle t all i w of
        (Inl e, w1) \<Rightarrow> (Inl e, w1)
      | (Inr u, w1) \<Rightarrow>
          (case search_corresponding_code t (get_next_conveyor_time all i) w1 of
             (Inl e, w2) \<Rightarrow> (Inl e, w2)
           | (Inr None, w2) \<Rightarrow> (Inr (), note_no_code t w2)
           | (Inr (Some c), w2) \<Rightarrow>
               (case get_equipment_data_by_time_range t (calculate_end_time all i t)
                       (note_code_found t w2) of
                  (Inl e, w4) \<Rightarrow> (Inl e, w4)
                | (Inr d, w4) \<Rightarrow> (Inl (KeyError ''v24_records''), w4))))"
  unfolding process_individual_conveyor_request_def Let_def after_fetch
    check_previous_cycle_def note_no_code_def note_code_found_def
  by (rule refl)

lemma check_previous_cycle_only_io:
  "check_previous_cycle t all i w = (r, w1) \<Longrightarrow> only_io w w1"
  by (auto simp: check_previous_cycle_def split: if_splits prod.splits sum.splits
      dest: verify_complete_cycle_only_io)

text \<open>The first request of a cycle has no previous cycle to check.\<close>

lemma check_previous_cycle_first: "check_previous_cycle t all 0 w = (Inr (), w)"
  by (simp add: check_previous_cycle_def)

text \<open>
  The check of the previous cycle connects to \<open>analytics\<close>. Where that name is not
  configured, the ValueError is caught inside \<open>_verify_complete_cycle\<close> and the check
  only logs.
\<close>

lemma verify_complete_cycle_unconfigured:
  "''analytics'' \<notin> set (DB_CONFIGS w) \<Longrightarrow> fst (verify_complete_cycle p n w) = Inr False"
  by (simp add: verify_complete_cycle_def execute_query_unconfigured)

lemma check_previous_cycle_unconfigured:
  "''analytics'' \<notin> set (DB_CONFIGS w) \<Longrightarrow> i \<le> length all \<Longrightarrow>
   fst (check_previous_cycle t all i w) = Inr ()"
  by (auto simp: check_previous_cycle_def verify_complete_cycle_def execute_query_unconfigured)

lemma note_no_code_driver_io [simp]: "driver_io w (note_no_code t w1) = driver_io w w1"
  by (simp add: note_no_code_def)

lemma note_code_found_driver_io [simp]: "driver_io w (note_code_found t w1) = driver_io w w1"
  by (simp add: note_code_found_def)

text \<open>
  A call of \<open>_process_individual_conveyor_request\<close> changes no table and no cursor,
  whatever it meets.
\<close>

lemma process_individual_driver_io:
  assumes "process_individual_conveyor_request t all i w = (r, w')"
  shows "driver_io w w'"
proof -
  obtain r1 w1 where c: "check_previous_cycle t all i w = (r1, w1)"
    by (cases "check_previous_cycle t all i w")
  have io1: "driver_io w w1"
    using check_previous_cycle_only_io [OF c] by (rule only_io_driver_io)
  show ?thesis
  proof (cases r1)
    case (Inl e)
    then show ?thesis using assms c io1 by (simp add: process_individual_reached)
  next
    case (Inr u)
    obtain r2 w2 where s: "search_corresponding_code t (get_next_conveyor_time all i) w1 = (r2, w2)"
      by (cases "search_corresponding_code t (get_next_conveyor_time all i) w1")
    have io2: "driver_io w w2"
      using io1 only_io_driver_io [OF search_corresponding_code_only_io [OF s]]
      by (rule driver_io_trans)
    show ?thesis
    proof (cases r2)
      case (Inl e)
      then show ?thesis using assms c Inr s io2 by (simp add: process_individual_reached)
    next
      case r2: (Inr found)
      show ?thesis
      proof (cases found)
        case None
        then show ?thesis using assms c Inr s r2 io2 by (auto simp: process_individual_reached)
      next
        case (Some cd)
        obtain r4 w4 where f: "get_equipment_data_by_time_range t (calculate_end_time all i t)
            (note_code_found t w2) = (r4, w4)"
          by (cases "get_equipment_data_by_time_range t (calculate_end_time all i t) (note_code_found t w2)")
        have "driver_io w (note_code_found t w2)" using io2 by simp
        then have io4: "driver_io w w4"
          using only_io_driver_io [OF get_equipment_data_only_io [OF f]] by (rule driver_io_trans)
        show ?thesis using assms c Inr s r2 Some f io4
          by (cases r4) (auto simp: process_individual_reached)
      qed
    qed
  qed
qed


section \<open>The cursor over a poll cycle\<close>









lemma cursor_le_refl [simp]: "cursor_le c c"
  by (cases c) simp_all

text \<open>The definitions that evaluate a poll cycle on a given world.\<close>

lemmas cycle_eval =
  process_conveyor_requests_def get_new_conveyor_requests_def build_conveyor_query_def
  execute_query_def connect_def next_outcome_def process_new_conveyor_requests_def
  process_individual_reached check_previous_cycle_def verify_complete_cycle_def cycle_query_def
  search_corresponding_code_def code_query_def get_next_conveyor_time_def calculate_end_time_def
  get_equipment_data_by_time_range_def equipment_query_def note_no_code_def note_code_found_def
  strftime_def nine_def seconds_def timedelta_minutes_def day_def Let_def logger_def





section \<open>A trigger without a code event\<close>

lemma no_code_warnings_logger:
  "no_code_warnings t (logger lv m a w) =
     no_code_warnings t w +
       (if (lv, m, a) = (WARNING, ''No code found for conveyor request: {conveyor_time}'', [LTime t])
        then 1 else 0)"
  by (simp add: no_code_warnings_def)

lemma no_code_warnings_fields [simp]:
  "no_code_warnings t (w\<lparr>requests_without_code := S\<rparr>) = no_code_warnings t w"
  "no_code_warnings t (w\<lparr>db_outcomes := fs\<rparr>) = no_code_warnings t w"
  by (simp_all add: no_code_warnings_def)

lemma next_outcome_warnings:
  "next_outcome w = (f, w1) \<Longrightarrow> no_code_warnings t w1 = no_code_warnings t w"
  by (auto simp: next_outcome_def split: list.splits)

lemma connect_warnings:
  "connect d w = (r, w1) \<Longrightarrow> no_code_warnings t w1 = no_code_warnings t w"
  by (auto simp: connect_def no_code_warnings_logger split: if_splits prod.splits db_outcome.splits
      dest: next_outcome_warnings)

lemma execute_query_warnings:
  "execute_query d q w = (r, w1) \<Longrightarrow> no_code_warnings t w1 = no_code_warnings t w"
  by (auto simp: execute_query_def no_code_warnings_logger
      split: prod.splits sum.splits db_outcome.splits dest: connect_warnings)

lemma verify_complete_cycle_warnings:
  "verify_complete_cycle p n w = (b, w1) \<Longrightarrow> no_code_warnings t w1 = no_code_warnings t w"
  by (auto simp: verify_complete_cycle_def Let_def no_code_warnings_logger
      split: prod.splits sum.splits if_splits dest: execute_query_warnings)

lemma check_previous_cycle_warnings:
  "check_previous_cycle t' all i w = (r, w1) \<Longrightarrow> no_code_warnings t w1 = no_code_warnings t w"
  by (auto simp: check_previous_cycle_def no_code_warnings_logger
      split: if_splits prod.splits sum.splits dest: verify_complete_cycle_warnings)

lemma search_corresponding_code_warnings:
  "search_corresponding_code t' n w = (r, w1) \<Longrightarrow> no_code_warnings t w1 = no_code_warnings t w"
  by (auto simp: search_corresponding_code_def Let_def no_code_warnings_logger
      split: prod.splits sum.splits option.splits list.splits dest: execute_query_warnings)

lemma get_equipment_data_warnings:
  "get_equipment_data_by_time_range s e w = (r, w1) \<Longrightarrow> no_code_warnings t w1 = no_code_warnings t w"
  by (auto simp: get_equipment_data_by_time_range_def Let_def split: prod.splits sum.splits
      dest: execute_query_warnings)

lemma note_no_code_props:
  "requests_without_code (note_no_code t w) = insert (strftime t) (requests_without_code w)"
  "no_code_warnings t (note_no_code t w) =
     no_code_warnings t w + (if strftime t \<in> requests_without_code w then 0 else 1)"
  by (auto simp: note_no_code_def no_code_warnings_logger)

lemma note_code_found_props:
  "requests_without_code (note_code_found t w) = requests_without_code w - {strftime t}"
  "no_code_warnings t' (note_code_found t w) = no_code_warnings t' w"
  by (auto simp: note_code_found_def)

text \<open>The code's window end is the specification's.\<close>

lemma search_end_time:
  "(case get_next_conveyor_time all i of Some n \<Rightarrow> n | None \<Rightarrow> t + timedelta_minutes 10)
     = window_end all i t"
  "calculate_end_time all i t = window_end all i t"
  by (auto simp: get_next_conveyor_time_def calculate_end_time_def window_end_def)

lemma code_query_window:
  "code_query t e w = take 1 (sort_key fst (codes_in_window t e w))"
  by (simp add: code_query_def codes_in_window_def)

lemma codes_in_window_only_io:
  "only_io w w1 \<Longrightarrow> codes_in_window t e w1 = codes_in_window t e w"
  by (simp add: codes_in_window_def only_ioD(4))

text \<open>With no code event in the window the matcher returns nothing, whatever the round trip does.\<close>

lemma search_no_code:
  assumes "''scanner'' \<in> set (DB_CONFIGS w)" "codes_in_window t (window_end all i t) w = []"
  shows "fst (search_corresponding_code t (get_next_conveyor_time all i) w) = Inr None"
proof -
  obtain r1 w1 where c: "connect ''scanner'' w = (r1, w1)" by (cases "connect ''scanner'' w")
  have io: "only_io w w1" using c by (rule connect_only_io)
  have r1: "\<exists>f. r1 = Inr f" using c assms(1) by (auto simp: connect_def split: prod.splits db_outcome.splits)
  have q: "code_query t (window_end all i t) w1 = []"
    using assms(2) codes_in_window_only_io [OF io] by (simp add: code_query_window)
  obtain f where f: "r1 = Inr f" using r1 by blast
  show ?thesis
    using c f q
    by (cases f) (simp_all add: search_corresponding_code_def search_end_time execute_query_def Let_def)
qed

text \<open>
  Where the name \<open>scanner\<close> is configured and the check of the previous cycle has
  passed, a trigger with no code event in its half-open window is skipped: the request
  returns, no table and no cursor has changed, the whole-second text of the trigger is in
  the set of requests without code, and the warning is logged exactly when that text was
  not in the set before.
\<close>

lemma process_individual_no_code:
  assumes "fst (check_previous_cycle t all i w) = Inr ()" "''scanner'' \<in> set (DB_CONFIGS w)"
    and "codes_in_window t (window_end all i t) w = []"
  shows "fst (process_individual_conveyor_request t all i w) = Inr ()"
    and "driver_io w (snd (process_individual_conveyor_request t all i w))"
    and "requests_without_code (snd (process_individual_conveyor_request t all i w))
           = insert (strftime t) (requests_without_code w)"
    and "no_code_warnings t (snd (process_individual_conveyor_request t all i w))
           = no_code_warnings t w + (if strftime t \<in> requests_without_code w then 0 else 1)"
proof -
  obtain r1 w1 where c: "check_previous_cycle t all i w = (r1, w1)"
    by (cases "check_previous_cycle t all i w")
  have r1: "r1 = Inr ()" using assms(1) c by simp
  have io1: "only_io w w1" using c by (rule check_previous_cycle_only_io)
  have w1: "''scanner'' \<in> set (DB_CONFIGS w1)" "codes_in_window t (window_end all i t) w1 = []"
    using assms(2,3) only_ioD(1) [OF io1] codes_in_window_only_io [OF io1] by simp_all
  obtain r2 w2 where s: "search_corresponding_code t (get_next_conveyor_time all i) w1 = (r2, w2)"
    by (cases "search_corresponding_code t (get_next_conveyor_time all i) w1")
  have r2: "r2 = Inr None" using search_no_code [OF w1] s by simp
  have io2: "only_io w1 w2" using s by (rule search_corresponding_code_only_io)
  have p: "process_individual_conveyor_request t all i w = (Inr (), note_no_code t w2)"
    using c r1 s r2 by (simp add: process_individual_reached)
  have rwc: "requests_without_code w2 = requests_without_code w"
    using only_ioD(10) [OF io1] only_ioD(10) [OF io2] by simp
  have warn: "no_code_warnings t w2 = no_code_warnings t w"
    using check_previous_cycle_warnings [OF c] search_corresponding_code_warnings [OF s] by simp
  show "fst (process_individual_conveyor_request t all i w) = Inr ()" using p by simp
  show "driver_io w (snd (process_individual_conveyor_request t all i w))"
    using process_individual_driver_io [of t all i w] p by simp
  show "requests_without_code (snd (process_individual_conveyor_request t all i w))
           = insert (strftime t) (requests_without_code w)"
    using p rwc by (simp add: note_no_code_props)
  show "no_code_warnings t (snd (process_individual_conveyor_request t all i w))
           = no_code_warnings t w + (if strftime t \<in> requests_without_code w then 0 else 1)"
    using p rwc warn by (simp add: note_no_code_props)
qed

text \<open>
  The check of the previous cycle can raise as well: where \<open>analytics\<close> is configured
  and a combined row of the previous trigger holds NULL in \<open>process_status\<close>, the
  request of the next trigger ends with TypeError before the matcher is called.
\<close>

lemma verify_loop_null_status: "verify_loop ((None, cs) # rows) = Inl TypeError"
  by simp

lemma null_status_raises:
  "fst (process_individual_conveyor_request (nine + seconds 60) [nine, nine + seconds 60] 1
          (world0\<lparr>tb_combined_data := [row0\<lparr>col_process_status := None\<rparr>]\<rparr>)) = Inl TypeError"
  unfolding world0_def row0_def
  by (simp add: cycle_eval)

text \<open>
  Claim C7 fails on the code. In the repository's configuration, with triggers at
  09:00:00 and 09:01:00 and no code event, the window of the first trigger holds no code
  event; the matcher raises \<open>ValueError\<close> (the database name \<open>scanner\<close> is not
  configured) and so do the request and the cycle. The trigger is not skipped: the cycle
  ends at it, the trigger of 09:01:00 is not looked at, no no-code warning is logged for
  either, and the set of requests without code stays empty.
\<close>

theorem no_code_trigger_raises:
  "codes_in_window nine (window_end [nine, nine + seconds 60] 0 nine) world_c7 = [] \<and>
   fst (get_new_conveyor_requests world_c7) = [nine, nine + seconds 60] \<and>
   fst (search_corresponding_code nine (Some (nine + seconds 60)) world_c7) = Inl ValueError \<and>
   fst (process_individual_conveyor_request nine [nine, nine + seconds 60] 0 world_c7) = Inl ValueError \<and>
   no_code_warnings nine
     (snd (process_individual_conveyor_request nine [nine, nine + seconds 60] 0 world_c7)) = 0 \<and>
   fst (process_conveyor_requests world_c7) = Inl ValueError \<and>
   no_code_warnings nine (snd (process_conveyor_requests world_c7)) = 0 \<and>
   no_code_warnings (nine + seconds 60) (snd (process_conveyor_requests world_c7)) = 0 \<and>
   requests_without_code (snd (process_conveyor_requests world_c7)) = {} \<and>
   last_processed_time (snd (process_conveyor_requests world_c7)) = None"
  unfolding world_c7_def shipped_def
  by (simp add: cycle_eval codes_in_window_def no_code_warnings_def)

text \<open>
  With the name \<open>scanner\<close> configured, the same trigger is skipped with one warning.
\<close>

lemma no_code_trigger_skipped_when_configured:
  "fst (process_individual_conveyor_request nine [nine, nine + seconds 60] 0
          (world_c7\<lparr>DB_CONFIGS := DB_CONFIGS world0\<rparr>)) = Inr () \<and>
   no_code_warnings nine
     (snd (process_individual_conveyor_request nine [nine, nine + seconds 60] 0
          (world_c7\<lparr>DB_CONFIGS := DB_CONFIGS world0\<rparr>))) = 1"
  using process_individual_no_code(1,4) [of nine "[nine, nine + seconds 60]" 0
      "world_c7\<lparr>DB_CONFIGS := DB_CONFIGS world0\<rparr>"]
  by (simp add: check_previous_cycle_first world_c7_def shipped_def world0_def codes_in_window_def
      window_end_def no_code_warnings_def nine_def seconds_def)

section \<open>A matched code with no equipment sample\<close>

text \<open>
  Claim C1 fails on the code. In the world with the trigger of 09:00:00 and the code event
  of 09:00:05 and no equipment sample, the code is matched and the fetcher returns no
  sample; the request then ends with \<open>KeyError('v24_records')\<close>, and so does the
  reconciliation of the cycle; the cursor is not advanced, neither in memory nor in the
  table.
\<close>

theorem matched_code_without_samples_raises:
  "fst (search_corresponding_code nine None world_c1) = Inr (Some (nine + seconds 5, ''P1'', ''op'', ''wo'')) \<and>
   fst (get_equipment_data_by_time_range nine (nine + timedelta_minutes 10) world_c1)
     = Inr [(''status_records'', [])] \<and>
   fst (process_individual_conveyor_request nine [nine] 0 world_c1) = Inl (KeyError ''v24_records'') \<and>
   last_processed_time (snd (process_individual_conveyor_request nine [nine] 0 world_c1)) = None \<and>
   tb_processing_state (snd (process_individual_conveyor_request nine [nine] 0 world_c1)) = None \<and>
   fst (process_conveyor_requests world_c1) = Inl (KeyError ''v24_records'') \<and>
   last_processed_time (snd (process_conveyor_requests world_c1)) = None \<and>
   tb_processing_state (snd (process_conveyor_requests world_c1)) = None"
  unfolding world_c1_def world0_def
  by (simp add: cycle_eval)


text \<open>
  The same holds in every world and for any number of samples: once a code is matched,
  the request raises, and nothing of what it did before has touched a table or a cursor.
\<close>

lemma matched_code_always_raises:
  assumes "check_previous_cycle t all i w = (Inr (), w1)"
    and "search_corresponding_code t (get_next_conveyor_time all i) w1 = (Inr (Some c), w2)"
  shows "\<exists>e. fst (process_individual_conveyor_request t all i w) = Inl e"
    and "driver_io w (snd (process_individual_conveyor_request t all i w))"
proof -
  show "\<exists>e. fst (process_individual_conveyor_request t all i w) = Inl e"
    using assms
    by (cases "get_equipment_data_by_time_range t (calculate_end_time all i t) (note_code_found t w2)")
       (auto simp: process_individual_reached split: sum.splits)
  show "driver_io w (snd (process_individual_conveyor_request t all i w))"
    using process_individual_driver_io [of t all i w] by (cases "process_individual_conveyor_request t all i w") simp
qed

section \<open>The update the driver would make\<close>

text \<open>
  The only update of the cursor in the driver is \<open>update_last_processed_time\<close> with the
  time stamp of a request of the cycle. Such an update moves neither cursor backward:
  when the in-memory cursor is \<open>c\<close>, the durable cursor is a whole second at or before
  \<open>c\<close>, and the request is at or after \<open>c\<close> (as the filter of the cycle ensures), both
  cursors after the update are at or above their values before, whether the update
  succeeds or not.
\<close>

lemma update_with_request_monotone:
  assumes "last_processed_time w = Some c" "durable_cursor w = Some (d * 1000000)"
    and "d * 1000000 \<le> c" "c \<le> r"
  shows "cursor_le (durable_cursor w) (durable_cursor (snd (update_last_processed_time (TTime r) w)))"
    and "cursor_le (last_processed_time w)
           (last_processed_time (snd (update_last_processed_time (TTime r) w)))"
proof -
  obtain rp w1 where p: "persist_last_processed_time (TTime r) w = (rp, w1)"
    by (cases "persist_last_processed_time (TTime r) w")
  have "d * 1000000 \<le> r" using assms(3,4) by simp
  then have "(d * 1000000) div 1000000 \<le> r div 1000000" by (rule zdiv_mono1) simp
  then have "d \<le> r div 1000000" by simp
  then have le: "d * 1000000 \<le> r div 1000000 * 1000000" by simp
  have both: "cursor_le (durable_cursor w) (durable_cursor (snd (update_last_processed_time (TTime r) w)))
      \<and> cursor_le (last_processed_time w)
           (last_processed_time (snd (update_last_processed_time (TTime r) w)))"
  proof (cases "rp = Inr True")
    case True
    then obtain w0 where w0: "only_io w w0"
      "w1 = w0\<lparr>tb_processing_state := Some (TText (strftime r))\<rparr>"
      using persist_cases [OF p] by auto
    have u: "update_last_processed_time (TTime r) w =
        (Inr True, logger INFO ''Time updated: {new_time}'' [LCursor (Some r)]
                     (w1\<lparr>last_processed_time := Some r\<rparr>))"
      using p True by (simp add: update_last_processed_time_def)
    have "durable_cursor (snd (update_last_processed_time (TTime r) w)) = Some (r div 1000000 * 1000000)"
      unfolding u w0(2)
      by (simp add: durable_cursor_def time_of_result_def strftime_def strptime_either_def)
    moreover have "last_processed_time (snd (update_last_processed_time (TTime r) w)) = Some r"
      unfolding u by simp
    ultimately show ?thesis using assms le by simp
  next
    case False
    then have io: "only_io w w1" using persist_cases [OF p] by auto
    have u: "update_last_processed_time (TTime r) w = (rp, w1)"
      using p False by (cases rp) (auto simp: update_last_processed_time_def split: bool.splits)
    show ?thesis
      unfolding u using only_ioD(7,9) [OF io] by (simp add: durable_cursor_def)
  qed
  show "cursor_le (durable_cursor w) (durable_cursor (snd (update_last_processed_time (TTime r) w)))"
    using both by simp
  show "cursor_le (last_processed_time w)
           (last_processed_time (snd (update_last_processed_time (TTime r) w)))"
    using both by simp
qed

end
